theory Spec2Isabelle
  imports Main "HOL-Library.Word" "HOL-Library.AList"
begin

unbundle bit_operations_syntax

section \<open>Constants and data of uvccap.c\<close>

text \<open>
  The program is a single-threaded V4L2 capture tool. C \<open>int\<close> values are modelled as
  \<open>int\<close> and \<open>uint32_t\<close> counters as \<open>nat\<close>: the program only compares and increments
  them below a bound, so no arithmetic on them can wrap. The one subtraction that is
  done in unsigned arithmetic (the write loop of \<open>read_frame\<close>) has its wrap-around
  written out. Four-byte pixel codes and the capability bitmask are \<open>32 word\<close>.
\<close>

type_synonym u32 = "32 word"

text \<open>
  The pixel codes, \<open>V4L2_CAP_VIDEO_CAPTURE\<close> and \<open>V4L2_FIELD_INTERLACED\<close> are not defined
  in the repository: they come from the kernel header \<open>linux/videodev2.h\<close> and are given
  the values they have there. \<open>v4l2_fourcc(a,b,c,d)\<close> packs the four characters, least
  significant byte first.
\<close>

definition v4l2_fourcc :: "char \<Rightarrow> char \<Rightarrow> char \<Rightarrow> char \<Rightarrow> u32" where
  "v4l2_fourcc a b c d =
     of_char a OR push_bit 8 (of_char b) OR push_bit 16 (of_char c) OR push_bit 24 (of_char d)"

definition V4L2_PIX_FMT_RGB565 :: u32 where
  "V4L2_PIX_FMT_RGB565 = v4l2_fourcc CHR ''R'' CHR ''G'' CHR ''B'' CHR ''P''"
definition V4L2_PIX_FMT_RGB32 :: u32 where
  "V4L2_PIX_FMT_RGB32 = v4l2_fourcc CHR ''R'' CHR ''G'' CHR ''B'' CHR ''4''"
definition V4L2_PIX_FMT_BGR32 :: u32 where
  "V4L2_PIX_FMT_BGR32 = v4l2_fourcc CHR ''B'' CHR ''G'' CHR ''R'' CHR ''4''"
definition V4L2_PIX_FMT_YUYV :: u32 where
  "V4L2_PIX_FMT_YUYV = v4l2_fourcc CHR ''Y'' CHR ''U'' CHR ''Y'' CHR ''V''"
definition V4L2_PIX_FMT_UYVY :: u32 where
  "V4L2_PIX_FMT_UYVY = v4l2_fourcc CHR ''U'' CHR ''Y'' CHR ''V'' CHR ''Y''"
definition V4L2_PIX_FMT_YUV420 :: u32 where
  "V4L2_PIX_FMT_YUV420 = v4l2_fourcc CHR ''Y'' CHR ''U'' CHR ''1'' CHR ''2''"
definition V4L2_PIX_FMT_YUV410 :: u32 where
  "V4L2_PIX_FMT_YUV410 = v4l2_fourcc CHR ''Y'' CHR ''U'' CHR ''V'' CHR ''9''"
definition V4L2_PIX_FMT_YUV422P :: u32 where
  "V4L2_PIX_FMT_YUV422P = v4l2_fourcc CHR ''4'' CHR ''2'' CHR ''2'' CHR ''P''"

definition V4L2_CAP_VIDEO_CAPTURE :: u32 where
  "V4L2_CAP_VIDEO_CAPTURE = 1"

definition DEF_VIDEO_DEVICE :: string where "DEF_VIDEO_DEVICE = ''/dev/video0''"
definition DEF_CAPTURE_WIDTH :: int where "DEF_CAPTURE_WIDTH = 640"
definition DEF_CAPTURE_HEIGHT :: int where "DEF_CAPTURE_HEIGHT = 480"
definition DEF_PIXEL_FORMAT :: int where "DEF_PIXEL_FORMAT = 3"
definition DEF_CAPTURE_PREFIX :: string where "DEF_CAPTURE_PREFIX = ''video.cap''"
definition DEF_CAPTURE_COUNT :: int where "DEF_CAPTURE_COUNT = 1"

definition NUMBER_OF_SUPPORTED_PIXEL_FORMATS :: int where
  "NUMBER_OF_SUPPORTED_PIXEL_FORMATS = 8"

text \<open>The table has \<open>NUMBER_OF_SUPPORTED_PIXEL_FORMATS + 1\<close> entries: eight codes and
  the zero sentinel.\<close>

definition PIXEL_FORMATS :: "u32 list" where
  "PIXEL_FORMATS =
     [V4L2_PIX_FMT_RGB565, V4L2_PIX_FMT_RGB32, V4L2_PIX_FMT_BGR32, V4L2_PIX_FMT_YUYV,
      V4L2_PIX_FMT_UYVY, V4L2_PIX_FMT_YUV420, V4L2_PIX_FMT_YUV410, V4L2_PIX_FMT_YUV422P,
      0]"

record app_args_t =
  device :: string
  cap_width :: int
  cap_height :: int
  pixel_format :: int
  cap_prefix :: string
  cap_count :: int

datatype ERRORS =
    NOERROR
  | INVALID_ARGUMENTS
  | INVALID_FORMAT_ARGUMENTS
  | VIDEO_DEVICE_BUSY
  | VIDEO_DEVICE_OPEN_FAILED
  | VIDEO_DEVICE_NOCAPS
  | VIDEO_DEVICE_NOCROPCAPS
  | VIDEO_DEVICE_CAPTURE_NOT_SUPPORTED
  | VIDEO_DEVICE_CROPPING_FAILED
  | VIDEO_DEVICE_ENUM_FORMAT_FAILED
  | VIDEO_DEVICE_QUERY_BUFFER_FAILED
  | VIDEO_DEVICE_STREAMING_FAILED
  | IO_METHOD_NOT_SUPPORTED
  | IO_ERROR
  | IO_FILE_NOT_CREATED
  | MEMORY_MAPPING_FAILED
  | MEMORY_QUEUEING_FAILED
  | MEMORY_DEQUEUEING_FAILED
  | INSUFFICIENT_MEMORY
  | NOT_PERMITTED

section \<open>Pixel-format mapping and argument parsing\<close>

text \<open>A C array read: the element when the index is inside the array, no value when
  the read is out of bounds (undefined behaviour in C).\<close>

definition array_at :: "'a list \<Rightarrow> int \<Rightarrow> 'a option" where
  "array_at xs i = (if 0 \<le> i \<and> i < int (length xs) then Some (xs ! nat i) else None)"

definition to_v4l2_pixel_format :: "int \<Rightarrow> u32 option" where
  "to_v4l2_pixel_format format =
     (if format \<ge> NUMBER_OF_SUPPORTED_PIXEL_FORMATS
      then array_at PIXEL_FORMATS DEF_PIXEL_FORMAT
      else array_at PIXEL_FORMATS format)"

text \<open>
  \<open>parse_args\<close>. \<open>getopt\<close> and \<open>atoi\<close> belong to the C library: the model takes the
  sequence of \<open>(opt, optarg)\<close> pairs that \<open>getopt\<close> yields, and \<open>atoi\<close> as a parameter.
  For an option declared with a colon \<open>getopt\<close> never yields a null \<open>optarg\<close>, so of the
  test in case \<open>'d'\<close> only the empty-string half can fire. An option character without
  a case (\<open>getopt\<close>'s \<open>'?'\<close>) falls through the switch. \<open>usage\<close> prints and calls
  \<open>exit(NOERROR)\<close>.
\<close>

datatype parsed = Exits ERRORS | Parsed int app_args_t

fun parse_opts :: "(string \<Rightarrow> int) \<Rightarrow> (char \<times> string) list \<Rightarrow> app_args_t \<Rightarrow> int \<times> app_args_t" where
  "parse_opts atoi [] args = (0, args)"
| "parse_opts atoi ((opt, optarg) # rest) args =
     (if opt = CHR ''d'' then
        (if optarg = [] then (-1, args)
         else parse_opts atoi rest (args\<lparr>device := optarg\<rparr>))
      else if opt = CHR ''w'' then parse_opts atoi rest (args\<lparr>cap_width := atoi optarg\<rparr>)
      else if opt = CHR ''h'' then parse_opts atoi rest (args\<lparr>cap_height := atoi optarg\<rparr>)
      else if opt = CHR ''f'' then
        (let args' = args\<lparr>pixel_format := atoi optarg\<rparr>
         in if pixel_format args' \<ge> NUMBER_OF_SUPPORTED_PIXEL_FORMATS then (-1, args')
            else parse_opts atoi rest args')
      else if opt = CHR ''p'' then parse_opts atoi rest (args\<lparr>cap_prefix := optarg\<rparr>)
      else if opt = CHR ''n'' then parse_opts atoi rest (args\<lparr>cap_count := atoi optarg\<rparr>)
      else parse_opts atoi rest args)"

definition parse_args ::
  "(string \<Rightarrow> int) \<Rightarrow> string list \<Rightarrow> (char \<times> string) list \<Rightarrow> app_args_t \<Rightarrow> parsed" where
  "parse_args atoi argv opts args =
     (if length argv = 2 \<and> (argv ! 1 = ''--help'' \<or> argv ! 1 = ''-?'') then Exits NOERROR
      else case parse_opts atoi opts args of (rc, args') \<Rightarrow> Parsed rc args')"

definition default_args :: app_args_t where
  "default_args =
     \<lparr>device = DEF_VIDEO_DEVICE, cap_width = DEF_CAPTURE_WIDTH,
      cap_height = DEF_CAPTURE_HEIGHT, pixel_format = DEF_PIXEL_FORMAT,
      cap_prefix = DEF_CAPTURE_PREFIX, cap_count = DEF_CAPTURE_COUNT\<rparr>"

section \<open>The kernel interface\<close>

text \<open>
  Every system call the program makes is answered by the environment. The model keeps
  the environment as a \<open>script\<close>, the replies still to come, consumed one per call in
  program order, and records every call in a \<open>trace\<close>, oldest first. A run that needs
  a reply when the script is empty, or meets a reply of the wrong shape for the call,
  is \<open>Stuck\<close>: within the script it did not return.
\<close>

datatype errno = EPERM | EIO | EAGAIN | ENOMEM | EBUSY | EINVAL | ETIMEDOUT | EOTHER

datatype ptr = NULL | MAP_FAILED | Addr nat

record video_buf_t =
  addr :: ptr
  size' :: nat

record v4l2_rect =
  rect_left :: int
  rect_top :: int
  rect_width :: int
  rect_height :: int

record v4l2_pix_format =
  width :: nat
  height :: nat
  pixelformat :: u32
  field :: nat
  bytesperline :: nat
  sizeimage :: nat

text \<open>
  \<open>video_dev_t\<close>, with each kernel structure reduced to the members the program reads
  or sets: \<open>caps.capabilities\<close>, \<open>cropcaps.defrect\<close>, \<open>crop.c\<close> and \<open>format.fmt.pix\<close>
  (the \<open>type\<close> members are always \<open>V4L2_BUF_TYPE_VIDEO_CAPTURE\<close>).
\<close>

record video_dev_t =
  fd :: int
  caps :: u32
  cropcaps :: v4l2_rect
  crop :: v4l2_rect
  format :: v4l2_pix_format
  buffers :: ptr
  buffer_count :: int

datatype syscall =
    SysOpen string
  | SysCreate string int
  | SysClose int
  | SysWrite int ptr int nat
  | SysSelect int
  | SysMmap nat int nat
  | SysMunmap ptr nat
  | SysMalloc nat
  | SysFree ptr
  | SysUsleep nat
  | VIDIOC_QUERYCAP int
  | VIDIOC_CROPCAP int
  | VIDIOC_ENUM_FMT int nat
  | VIDIOC_S_CROP int v4l2_rect
  | VIDIOC_S_FMT int v4l2_pix_format
  | VIDIOC_G_FMT int
  | VIDIOC_REQBUFS int nat
  | VIDIOC_QUERYBUF int nat
  | VIDIOC_QBUF int nat
  | VIDIOC_DQBUF int
  | VIDIOC_STREAMON int
  | VIDIOC_STREAMOFF int

text \<open>
  \<open>SysCreate prefix index\<close> is \<open>open(path, O_WRONLY | O_CREAT, 0666)\<close> on the path
  \<open>"%s.%d"\<close> of prefix and index; \<open>SysWrite fd base wrote count\<close> is
  \<open>write(fd, base + wrote, count)\<close>; \<open>SysMalloc n\<close> asks for \<open>n\<close> entries of
  \<open>video_buf_t\<close>; \<open>SysMmap length fd offset\<close> is the read-only shared mapping.

  A reply: \<open>Fail e\<close> is the failure of the call (\<open>-1\<close>, or \<open>MAP_FAILED\<close> from \<open>mmap\<close>,
  or \<open>NULL\<close> from \<open>malloc\<close>) with \<open>errno = e\<close>; the others are the success of the call
  with what it returns or writes into the structure it was passed.
\<close>

datatype reply =
    Fail errno
  | Ok
  | Fd nat
  | Caps u32
  | CropCaps v4l2_rect
  | Format v4l2_pix_format
  | Granted nat
  | Buffer nat nat
  | Address nat
  | Dequeued nat nat
  | Ready bool
  | Written nat

record world =
  script :: "reply list"
  trace :: "syscall list"
  heap :: "(nat \<times> video_buf_t option list) list"
  mapped :: "(ptr \<times> nat) list"

text \<open>
  \<open>heap\<close> holds the arrays got from \<open>malloc\<close> and not yet freed, by address; an entry
  that was never written is \<open>None\<close>. \<open>mapped\<close> holds the live mappings.

  A run either returns a value and the world it leaves, or is \<open>Stuck\<close>, or is
  \<open>Aborted\<close> by a failed \<open>assert\<close>, or is \<open>Undefined\<close>: it read or freed memory it
  does not own, or read outside an array.
\<close>

datatype 'a outcome = Returns 'a world | Stuck | Aborted | Undefined

definition andThen :: "'a outcome \<Rightarrow> ('a \<Rightarrow> world \<Rightarrow> 'b outcome) \<Rightarrow> 'b outcome" where
  "andThen m f =
     (case m of Returns a w \<Rightarrow> f a w | Stuck \<Rightarrow> Stuck | Aborted \<Rightarrow> Aborted
      | Undefined \<Rightarrow> Undefined)"

definition sys :: "syscall \<Rightarrow> world \<Rightarrow> reply outcome" where
  "sys c w =
     (case script w of
        [] \<Rightarrow> Stuck
      | r # rs \<Rightarrow> Returns r (w\<lparr>script := rs, trace := trace w @ [c]\<rparr>))"

text \<open>\<open>call c decode\<close>: the call \<open>c\<close>, giving \<open>Inl errno\<close> when it fails and \<open>Inr\<close> of
  the decoded success otherwise.\<close>

definition call :: "syscall \<Rightarrow> (reply \<Rightarrow> 'a option) \<Rightarrow> world \<Rightarrow> (errno + 'a) outcome" where
  "call c decode w =
     andThen (sys c w) (\<lambda>r w'.
       case r of
         Fail e \<Rightarrow> Returns (Inl e) w'
       | _ \<Rightarrow> (case decode r of Some a \<Rightarrow> Returns (Inr a) w' | None \<Rightarrow> Stuck))"

definition is_ok :: "reply \<Rightarrow> unit option" where
  "is_ok r = (case r of Ok \<Rightarrow> Some () | _ \<Rightarrow> None)"
definition is_fd :: "reply \<Rightarrow> int option" where
  "is_fd r = (case r of Fd n \<Rightarrow> Some (int n) | _ \<Rightarrow> None)"
definition is_caps :: "reply \<Rightarrow> u32 option" where
  "is_caps r = (case r of Caps c \<Rightarrow> Some c | _ \<Rightarrow> None)"
definition is_cropcaps :: "reply \<Rightarrow> v4l2_rect option" where
  "is_cropcaps r = (case r of CropCaps c \<Rightarrow> Some c | _ \<Rightarrow> None)"
definition is_format :: "reply \<Rightarrow> v4l2_pix_format option" where
  "is_format r = (case r of Format f \<Rightarrow> Some f | _ \<Rightarrow> None)"
definition is_granted :: "reply \<Rightarrow> nat option" where
  "is_granted r = (case r of Granted n \<Rightarrow> Some n | _ \<Rightarrow> None)"
definition is_buffer :: "reply \<Rightarrow> (nat \<times> nat) option" where
  "is_buffer r = (case r of Buffer len off \<Rightarrow> Some (len, off) | _ \<Rightarrow> None)"
definition is_dequeued :: "reply \<Rightarrow> (nat \<times> nat) option" where
  "is_dequeued r = (case r of Dequeued i len \<Rightarrow> Some (i, len) | _ \<Rightarrow> None)"
definition is_ready :: "reply \<Rightarrow> bool option" where
  "is_ready r = (case r of Ready b \<Rightarrow> Some b | _ \<Rightarrow> None)"
definition is_written :: "reply \<Rightarrow> nat option" where
  "is_written r = (case r of Written n \<Rightarrow> Some n | _ \<Rightarrow> None)"

text \<open>Calls whose return value the program never looks at take no reply.\<close>

definition munmap :: "ptr \<Rightarrow> nat \<Rightarrow> world \<Rightarrow> unit outcome" where
  "munmap p n w =
     Returns () (w\<lparr>trace := trace w @ [SysMunmap p n], mapped := remove1 (p, n) (mapped w)\<rparr>)"

definition usleep :: "nat \<Rightarrow> world \<Rightarrow> unit outcome" where
  "usleep n w = Returns () (w\<lparr>trace := trace w @ [SysUsleep n]\<rparr>)"

definition mmap :: "nat \<Rightarrow> int \<Rightarrow> nat \<Rightarrow> world \<Rightarrow> ptr outcome" where
  "mmap len f off w =
     andThen (sys (SysMmap len f off) w) (\<lambda>r w'.
       case r of
         Fail e \<Rightarrow> Returns MAP_FAILED w'
       | Address a \<Rightarrow> Returns (Addr a) (w'\<lparr>mapped := mapped w' @ [(Addr a, len)]\<rparr>)
       | _ \<Rightarrow> Stuck)"

text \<open>\<open>malloc\<close> of an array of \<open>n\<close> entries: a fresh address whose entries are all
  unwritten, or \<open>NULL\<close>.\<close>

definition malloc :: "nat \<Rightarrow> world \<Rightarrow> ptr outcome" where
  "malloc n w =
     andThen (sys (SysMalloc n) w) (\<lambda>r w'.
       case r of
         Fail e \<Rightarrow> Returns NULL w'
       | Address a \<Rightarrow>
           (if map_of (heap w') a = None
            then Returns (Addr a) (w'\<lparr>heap := (a, replicate n None) # heap w'\<rparr>)
            else Stuck)
       | _ \<Rightarrow> Stuck)"

definition free :: "ptr \<Rightarrow> world \<Rightarrow> unit outcome" where
  "free p w =
     (case p of
        NULL \<Rightarrow> Returns () (w\<lparr>trace := trace w @ [SysFree p]\<rparr>)
      | MAP_FAILED \<Rightarrow> Undefined
      | Addr a \<Rightarrow>
          (case map_of (heap w) a of
             None \<Rightarrow> Undefined
           | Some blk \<Rightarrow>
               Returns () (w\<lparr>trace := trace w @ [SysFree p],
                              heap := filter (\<lambda>(b, _). b \<noteq> a) (heap w)\<rparr>)))"

text \<open>Reading and writing entry \<open>i\<close> of the array at \<open>p\<close>.\<close>

definition load :: "ptr \<Rightarrow> nat \<Rightarrow> world \<Rightarrow> video_buf_t outcome" where
  "load p i w =
     (case p of
        Addr a \<Rightarrow>
          (case map_of (heap w) a of
             Some blk \<Rightarrow>
               (if i < length blk
                then (case blk ! i of Some b \<Rightarrow> Returns b w | None \<Rightarrow> Undefined)
                else Undefined)
           | None \<Rightarrow> Undefined)
      | _ \<Rightarrow> Undefined)"

definition store :: "ptr \<Rightarrow> nat \<Rightarrow> video_buf_t \<Rightarrow> world \<Rightarrow> unit outcome" where
  "store p i b w =
     (case p of
        Addr a \<Rightarrow>
          (case map_of (heap w) a of
             Some blk \<Rightarrow>
               (if i < length blk
                then Returns () (w\<lparr>heap := AList.update a (blk[i := Some b]) (heap w)\<rparr>)
                else Undefined)
           | None \<Rightarrow> Undefined)
      | _ \<Rightarrow> Undefined)"

text \<open>Conversions between \<open>int\<close> and \<open>uint32_t\<close>.\<close>

definition to_u32 :: "int \<Rightarrow> nat" where
  "to_u32 x = nat (x mod 2 ^ 32)"

definition to_int :: "nat \<Rightarrow> int" where
  "to_int n = (let x = int n mod 2 ^ 32 in if x < 2 ^ 31 then x else x - 2 ^ 32)"

text \<open>What the loops below need to be accepted as total: a call takes one reply off the
  script, and the memory operations leave the script alone.\<close>

lemma andThen_cong [fundef_cong]:
  "m = m' \<Longrightarrow> (\<And>a w. m' = Returns a w \<Longrightarrow> f a w = f' a w) \<Longrightarrow> andThen m f = andThen m' f'"
  by (simp add: andThen_def split: outcome.splits)

lemma sys_script:
  "sys c w = Returns r w' \<Longrightarrow> length (script w') < length (script w)"
  by (auto simp: sys_def split: list.splits)

lemma call_script:
  "call c d w = Returns r w' \<Longrightarrow> length (script w') < length (script w)"
  by (auto simp: call_def andThen_def split: outcome.splits reply.splits option.splits
      dest: sys_script)

lemma mmap_script:
  "mmap len f off w = Returns r w' \<Longrightarrow> length (script w') < length (script w)"
  by (auto simp: mmap_def andThen_def split: outcome.splits reply.splits dest: sys_script)

lemma malloc_script:
  "malloc n w = Returns r w' \<Longrightarrow> length (script w') < length (script w)"
  by (auto simp: malloc_def andThen_def split: outcome.splits reply.splits if_splits
      dest: sys_script)

lemma munmap_script: "munmap p n w = Returns r w' \<Longrightarrow> script w' = script w"
  by (auto simp: munmap_def)

lemma usleep_script: "usleep n w = Returns r w' \<Longrightarrow> script w' = script w"
  by (auto simp: usleep_def)

lemma free_script: "free p w = Returns r w' \<Longrightarrow> script w' = script w"
  by (auto simp: free_def split: ptr.splits option.splits)

lemma load_script: "load p i w = Returns r w' \<Longrightarrow> script w' = script w"
  by (auto simp: load_def split: ptr.splits option.splits if_splits)

lemma store_script: "store p i b w = Returns r w' \<Longrightarrow> script w' = script w"
  by (auto simp: store_def split: ptr.splits option.splits if_splits)

section \<open>Opening and closing the device\<close>

text \<open>The loop \<open>for (i = 0; ; ++i)\<close> of \<open>open_video_device\<close> that enumerates the pixel
  formats; the descriptor it gets is only printed.\<close>

function enum_formats :: "int \<Rightarrow> nat \<Rightarrow> world \<Rightarrow> ERRORS outcome" where
  "enum_formats f i w =
     andThen (call (VIDIOC_ENUM_FMT f i) is_ok w) (\<lambda>r w.
       case r of
         Inl e \<Rightarrow>
           (if e = EINVAL then Returns NOERROR w
            else Returns VIDEO_DEVICE_ENUM_FORMAT_FAILED w)
       | Inr _ \<Rightarrow> enum_formats f (i + 1) w)"
  by pat_completeness auto
termination
  by (relation "measure (\<lambda>(f, i, w). length (script w))") (auto dest: call_script)
declare enum_formats.simps [simp del]

definition zero_rect :: v4l2_rect where
  "zero_rect = \<lparr>rect_left = 0, rect_top = 0, rect_width = 0, rect_height = 0\<rparr>"

definition open_video_device ::
  "app_args_t \<Rightarrow> video_dev_t \<Rightarrow> world \<Rightarrow> (ERRORS \<times> video_dev_t) outcome" where
  "open_video_device args dev w =
     andThen (call (SysOpen (device args)) is_fd w) (\<lambda>r w.
       case r of
         Inl e \<Rightarrow>
           (if e = EBUSY then Returns (VIDEO_DEVICE_BUSY, dev\<lparr>fd := -1\<rparr>) w
            else if e = EPERM then Returns (NOT_PERMITTED, dev\<lparr>fd := -1\<rparr>) w
            else Returns (VIDEO_DEVICE_OPEN_FAILED, dev\<lparr>fd := -1\<rparr>) w)
       | Inr n \<Rightarrow>
           andThen (call (VIDIOC_QUERYCAP n) is_caps w) (\<lambda>r w.
             case r of
               Inl e \<Rightarrow>
                 andThen (sys (SysClose n) w) (\<lambda>_ w.
                   Returns (VIDEO_DEVICE_NOCAPS, dev\<lparr>fd := -1\<rparr>) w)
             | Inr c \<Rightarrow>
                 (if c AND V4L2_CAP_VIDEO_CAPTURE = 0 then
                    andThen (sys (SysClose n) w) (\<lambda>_ w.
                      Returns (VIDEO_DEVICE_CAPTURE_NOT_SUPPORTED, dev\<lparr>fd := -1, caps := c\<rparr>) w)
                  else
                    andThen (call (VIDIOC_CROPCAP n) is_cropcaps w) (\<lambda>r w.
                      case r of
                        Inl e \<Rightarrow>
                          Returns (VIDEO_DEVICE_NOCROPCAPS,
                                   dev\<lparr>fd := n, caps := c, cropcaps := zero_rect\<rparr>) w
                      | Inr rect \<Rightarrow>
                          andThen (enum_formats n 0 w) (\<lambda>result w.
                            Returns (result, dev\<lparr>fd := n, caps := c, cropcaps := rect\<rparr>) w)))))"

text \<open>The loop of \<open>close_video_device\<close> over the buffers. \<open>i\<close> is a \<open>uint32_t\<close>, so
  \<open>dev->buffer_count\<close> is converted to unsigned for the comparison.\<close>

function unmap_buffers :: "video_dev_t \<Rightarrow> nat \<Rightarrow> world \<Rightarrow> unit outcome" where
  "unmap_buffers dev i w =
     (if i < to_u32 (buffer_count dev) then
        andThen (load (buffers dev) i w) (\<lambda>b w.
          if addr b = MAP_FAILED then Returns () w
          else andThen (munmap (addr b) (size' b) w) (\<lambda>_ w. unmap_buffers dev (i + 1) w))
      else Returns () w)"
  by pat_completeness auto
termination
  by (relation "measure (\<lambda>(dev, i, w). to_u32 (buffer_count dev) - i)") auto
declare unmap_buffers.simps [simp del]

text \<open>\<open>do { ret = close(dev->fd); } while (ret < 0);\<close>\<close>

function close_retry :: "int \<Rightarrow> world \<Rightarrow> unit outcome" where
  "close_retry f w =
     andThen (call (SysClose f) is_ok w) (\<lambda>r w.
       case r of Inl e \<Rightarrow> close_retry f w | Inr _ \<Rightarrow> Returns () w)"
  by pat_completeness auto
termination
  by (relation "measure (\<lambda>(f, w). length (script w))") (auto dest: call_script)
declare close_retry.simps [simp del]

text \<open>\<open>close_video_device\<close> takes a pointer to a constant \<open>video_dev_t\<close>: \<open>None\<close> is the
  null pointer. It cannot and does not change the structure.\<close>

definition close_video_device :: "video_dev_t option \<Rightarrow> world \<Rightarrow> unit outcome" where
  "close_video_device d w =
     (case d of
        None \<Rightarrow> Returns () w
      | Some dev \<Rightarrow>
          (if 0 > fd dev then Returns () w
           else
             andThen
               (if buffers dev \<noteq> NULL then
                  andThen (unmap_buffers dev 0 w) (\<lambda>_ w. free (buffers dev) w)
                else Returns () w)
               (\<lambda>_ w. close_retry (fd dev) w)))"

section \<open>Buffer pool\<close>

text \<open>The first loop of \<open>init_buffer\<close>: query and map buffer \<open>i\<close>. It yields the value
  of \<open>i\<close> at which the loop was left, and \<open>result\<close>.\<close>

function map_buffers :: "int \<Rightarrow> ptr \<Rightarrow> nat \<Rightarrow> nat \<Rightarrow> world \<Rightarrow> (nat \<times> ERRORS) outcome" where
  "map_buffers f buf_ptr i count w =
     (if i < count then
        andThen (store buf_ptr i \<lparr>addr = MAP_FAILED, size' = 0\<rparr> w) (\<lambda>_ w.
        andThen (call (VIDIOC_QUERYBUF f i) is_buffer w) (\<lambda>r w.
          case r of
            Inl e \<Rightarrow>
              (if e = EINVAL then Returns (i, NOERROR) w
               else Returns (i, VIDEO_DEVICE_QUERY_BUFFER_FAILED) w)
          | Inr (len, off) \<Rightarrow>
              andThen (mmap len f off w) (\<lambda>a w.
              andThen (store buf_ptr i \<lparr>addr = a, size' = len\<rparr> w) (\<lambda>_ w.
                if a = MAP_FAILED then Returns (i, MEMORY_MAPPING_FAILED) w
                else map_buffers f buf_ptr (i + 1) count w))))
      else Returns (i, NOERROR) w)"
  by pat_completeness auto
termination
  by (relation "measure (\<lambda>(f, p, i, count, w). count - i)") auto
declare map_buffers.simps [simp del]

text \<open>The second loop of \<open>init_buffer\<close>, run when \<open>result\<close> is an error: unmap what was
  mapped, up to the first entry that holds \<open>MAP_FAILED\<close>.\<close>

function release_buffers :: "ptr \<Rightarrow> nat \<Rightarrow> nat \<Rightarrow> world \<Rightarrow> unit outcome" where
  "release_buffers buf_ptr i count w =
     (if i < count then
        andThen (load buf_ptr i w) (\<lambda>b w.
          if addr b = MAP_FAILED then Returns () w
          else
            andThen (munmap (addr b) (size' b) w) (\<lambda>_ w.
            andThen (store buf_ptr i \<lparr>addr = NULL, size' = 0\<rparr> w) (\<lambda>_ w.
              release_buffers buf_ptr (i + 1) count w)))
      else Returns () w)"
  by pat_completeness auto
termination
  by (relation "measure (\<lambda>(p, i, count, w). count - i)") auto
declare release_buffers.simps [simp del]

text \<open>\<open>init_buffer\<close> from \<open>count = req.count\<close> on.\<close>

definition init_buffer_pool ::
  "video_dev_t \<Rightarrow> nat \<Rightarrow> world \<Rightarrow> (ERRORS \<times> video_dev_t) outcome" where
  "init_buffer_pool dev count w =
     (if count < 2 then Returns (INSUFFICIENT_MEMORY, dev) w
      else
        andThen (malloc count w) (\<lambda>buf_ptr w.
          if buf_ptr = NULL then Returns (INSUFFICIENT_MEMORY, dev) w
          else
            andThen (map_buffers (fd dev) buf_ptr 0 count w) (\<lambda>(i, result) w.
              if result \<noteq> NOERROR then
                andThen (release_buffers buf_ptr 0 count w) (\<lambda>_ w.
                andThen (free buf_ptr w) (\<lambda>_ w. Returns (result, dev) w))
              else Returns (result, dev\<lparr>buffers := buf_ptr, buffer_count := to_int i\<rparr>) w)))"

text \<open>\<open>init_buffer\<close>. The request asks for 2 buffers; on success the kernel writes the
  number it grants into \<open>req.count\<close>. A failure other than \<open>EBUSY\<close> and \<open>EINVAL\<close> is
  not handled, and the program goes on with the count it asked for.\<close>

definition init_buffer :: "video_dev_t \<Rightarrow> world \<Rightarrow> (ERRORS \<times> video_dev_t) outcome" where
  "init_buffer dev0 w =
     (let dev = dev0\<lparr>buffers := NULL, buffer_count := 0\<rparr> in
      andThen (call (VIDIOC_REQBUFS (fd dev) 2) is_granted w) (\<lambda>r w.
        case r of
          Inl e \<Rightarrow>
            (if e = EBUSY then Returns (VIDEO_DEVICE_BUSY, dev) w
             else if e = EINVAL then Returns (IO_METHOD_NOT_SUPPORTED, dev) w
             else init_buffer_pool dev 2 w)
        | Inr count \<Rightarrow> init_buffer_pool dev count w))"

section \<open>Format negotiation\<close>

definition V4L2_FIELD_INTERLACED :: nat where
  "V4L2_FIELD_INTERLACED = 4"

text \<open>\<open>init_video_device\<close> after the format was set: the format is read into the local
  \<open>fmt\<close>, printed when the call succeeds, and dropped.\<close>

definition read_back_format :: "video_dev_t \<Rightarrow> world \<Rightarrow> (ERRORS \<times> video_dev_t) outcome" where
  "read_back_format dev w =
     andThen (call (VIDIOC_G_FMT (fd dev)) is_format w) (\<lambda>fmt w. init_buffer dev w)"

text \<open>\<open>init_video_device\<close> from \<open>// set format\<close> on. \<open>VIDIOC_S_FMT\<close> is passed
  \<open>&dev->format\<close>, into which the kernel writes the format it has set. An out-of-bounds
  read of the format table is undefined behaviour.\<close>

definition set_format ::
  "app_args_t \<Rightarrow> video_dev_t \<Rightarrow> world \<Rightarrow> (ERRORS \<times> video_dev_t) outcome" where
  "set_format args dev0 w =
     (case to_v4l2_pixel_format (pixel_format args) of
        None \<Rightarrow> Undefined
      | Some code \<Rightarrow>
          (let dev = dev0\<lparr>format :=
                 \<lparr>width = to_u32 (cap_width args), height = to_u32 (cap_height args),
                  pixelformat = code, field = V4L2_FIELD_INTERLACED,
                  bytesperline = 0, sizeimage = 0\<rparr>\<rparr> in
           andThen (call (VIDIOC_S_FMT (fd dev) (format dev)) is_format w) (\<lambda>r w.
             case r of
               Inl e \<Rightarrow>
                 (if e = EBUSY then Returns (VIDEO_DEVICE_BUSY, dev) w
                  else if e = EINVAL then Returns (INVALID_FORMAT_ARGUMENTS, dev) w
                  else read_back_format dev w)
             | Inr written \<Rightarrow> read_back_format (dev\<lparr>format := written\<rparr>) w)))"

definition init_video_device ::
  "app_args_t \<Rightarrow> video_dev_t \<Rightarrow> world \<Rightarrow> (ERRORS \<times> video_dev_t) outcome" where
  "init_video_device args dev0 w =
     (let dev = dev0\<lparr>crop := cropcaps dev0\<rparr> in
      andThen (call (VIDIOC_S_CROP (fd dev) (crop dev)) is_ok w) (\<lambda>r w.
        case r of
          Inl e \<Rightarrow>
            (if e = EINVAL then set_format args dev w
             else Returns (VIDEO_DEVICE_CROPPING_FAILED, dev) w)
        | Inr _ \<Rightarrow> set_format args dev w))"

section \<open>Capture\<close>

text \<open>The inner loop of \<open>start_capture\<close> for buffer \<open>i\<close>; it yields \<open>retry\<close> and
  \<open>result\<close> as the loop leaves them.\<close>

function enqueue_retry :: "int \<Rightarrow> nat \<Rightarrow> int \<Rightarrow> world \<Rightarrow> (int \<times> ERRORS) outcome" where
  "enqueue_retry f i retry w =
     (if retry < 5 then
        andThen (call (VIDIOC_QBUF f i) is_ok w) (\<lambda>r w.
          case r of
            Inr _ \<Rightarrow> Returns (retry, NOERROR) w
          | Inl e \<Rightarrow>
              andThen
                (case e of
                   EINVAL \<Rightarrow> Returns MEMORY_QUEUEING_FAILED w
                 | EIO \<Rightarrow> Returns IO_ERROR w
                 | ENOMEM \<Rightarrow> andThen (usleep 10000 w) (\<lambda>_ w. Returns NOERROR w)
                 | EAGAIN \<Rightarrow> andThen (usleep 10000 w) (\<lambda>_ w. Returns NOERROR w)
                 | _ \<Rightarrow> Returns MEMORY_QUEUEING_FAILED w)
                (\<lambda>result w.
                   if result \<noteq> NOERROR then Returns (retry, result) w
                   else enqueue_retry f i (retry + 1) w))
      else Returns (retry, NOERROR) w)"
  by pat_completeness auto
termination
  by (relation "measure (\<lambda>(f, i, retry, w). nat (5 - retry))") auto
declare enqueue_retry.simps [simp del]

text \<open>The outer loop of \<open>start_capture\<close>.\<close>

function enqueue_all :: "int \<Rightarrow> nat \<Rightarrow> nat \<Rightarrow> world \<Rightarrow> ERRORS outcome" where
  "enqueue_all f i count w =
     (if i < count then
        andThen (enqueue_retry f i 0 w) (\<lambda>(retry, result0) w.
          let result = (if retry \<ge> 5 then MEMORY_QUEUEING_FAILED else result0) in
          if result \<noteq> NOERROR then Returns result w
          else enqueue_all f (i + 1) count w)
      else Returns NOERROR w)"
  by pat_completeness auto
termination
  by (relation "measure (\<lambda>(f, i, count, w). count - i)") auto
declare enqueue_all.simps [simp del]

definition start_capture :: "video_dev_t \<Rightarrow> world \<Rightarrow> ERRORS outcome" where
  "start_capture dev w =
     andThen (enqueue_all (fd dev) 0 (to_u32 (buffer_count dev)) w) (\<lambda>result w.
       if result \<noteq> NOERROR then Returns result w
       else
         andThen (call (VIDIOC_STREAMON (fd dev)) is_ok w) (\<lambda>r w.
           case r of
             Inl e \<Rightarrow> Returns VIDEO_DEVICE_STREAMING_FAILED w
           | Inr _ \<Rightarrow> Returns result w))"

definition stop_capture :: "video_dev_t \<Rightarrow> world \<Rightarrow> unit outcome" where
  "stop_capture dev w =
     andThen (call (VIDIOC_STREAMOFF (fd dev)) is_ok w) (\<lambda>r w. Returns () w)"

text \<open>
  The write loop of \<open>read_frame\<close>:
  \<open>for (wrote = 0; wrote < buf.length; ) { n = write(fd, ptr + wrote, size - wrote); ... }\<close>.
  \<open>wrote\<close> is an \<open>int\<close>, \<open>buf.length\<close> and \<open>size\<close> are \<open>uint32_t\<close>: the comparison and the
  subtraction are unsigned, modulo \<open>2 ^ 32\<close>.
\<close>

function write_loop :: "int \<Rightarrow> ptr \<Rightarrow> nat \<Rightarrow> nat \<Rightarrow> int \<Rightarrow> world \<Rightarrow> unit outcome" where
  "write_loop f p sz len wrote w =
     (if to_u32 wrote < len then
        andThen (call (SysWrite f p wrote (to_u32 (int sz - wrote))) is_written w) (\<lambda>r w.
          case r of
            Inl e \<Rightarrow> Returns () w
          | Inr n \<Rightarrow> write_loop f p sz len (wrote + int n) w)
      else Returns () w)"
  by pat_completeness auto
termination
  by (relation "measure (\<lambda>(f, p, sz, len, wrote, w). length (script w))")
     (auto dest: call_script)
declare write_loop.simps [simp del]

text \<open>The end of \<open>read_frame\<close>: \<open>VIDIOC_QBUF\<close> with the structure \<open>VIDIOC_DQBUF\<close> filled.\<close>

definition requeue :: "video_dev_t \<Rightarrow> nat \<Rightarrow> ERRORS \<Rightarrow> world \<Rightarrow> ERRORS outcome" where
  "requeue dev index result w =
     andThen (call (VIDIOC_QBUF (fd dev) index) is_ok w) (\<lambda>r w.
       case r of
         Inl e \<Rightarrow> Returns MEMORY_QUEUEING_FAILED w
       | Inr _ \<Rightarrow> Returns result w)"

text \<open>\<open>read_frame\<close>. The kernel's reply to \<open>VIDIOC_DQBUF\<close> gives \<open>buf.index\<close> and
  \<open>buf.length\<close>. The return value of the \<open>close\<close> of the frame file is not looked at.\<close>

definition read_frame :: "app_args_t \<Rightarrow> video_dev_t \<Rightarrow> int \<Rightarrow> world \<Rightarrow> ERRORS outcome" where
  "read_frame args dev index w =
     andThen (call (VIDIOC_DQBUF (fd dev)) is_dequeued w) (\<lambda>r w.
       case r of
         Inl e \<Rightarrow> Returns MEMORY_DEQUEUEING_FAILED w
       | Inr (buf_index, buf_length) \<Rightarrow>
           (if \<not> buf_index < to_u32 (buffer_count dev) then Aborted
            else
              andThen (call (SysCreate (cap_prefix args) index) is_fd w) (\<lambda>r w.
                case r of
                  Inl e \<Rightarrow>
                    (if e = EPERM then requeue dev buf_index NOT_PERMITTED w
                     else requeue dev buf_index IO_FILE_NOT_CREATED w)
                | Inr f \<Rightarrow>
                    andThen (load (buffers dev) buf_index w) (\<lambda>b w.
                    andThen (write_loop f (addr b) (size' b) buf_length 0 w) (\<lambda>_ w.
                    andThen (sys (SysClose f) w) (\<lambda>_ w.
                      requeue dev buf_index NOERROR w))))))"

lemma write_loop_script:
  "write_loop f p sz len wrote w = Returns r w' \<Longrightarrow> length (script w') \<le> length (script w)"
proof (induction f p sz len wrote w rule: write_loop.induct)
  case (1 f p sz len wrote w)
  note unfold = write_loop.simps [of f p sz len wrote w]
  show ?case
  proof (cases "to_u32 wrote < len")
    case False
    with "1.prems" show ?thesis by (simp add: unfold)
  next
    case True
    with "1.prems" obtain x w1 where
      c: "call (SysWrite f p wrote (to_u32 (int sz - wrote))) is_written w = Returns x w1"
      by (auto simp: unfold andThen_def split: outcome.splits)
    show ?thesis
    proof (cases x)
      case (Inl e)
      with True c "1.prems" show ?thesis
        using call_script [OF c] by (simp add: unfold andThen_def)
    next
      case (Inr n)
      with True c "1.prems" have "write_loop f p sz len (wrote + int n) w1 = Returns r w'"
        by (simp add: unfold andThen_def)
      from "1.IH" [OF True c Inr this] call_script [OF c] show ?thesis by simp
    qed
  qed
qed

lemma requeue_script:
  "requeue dev i res w = Returns r w' \<Longrightarrow> length (script w') < length (script w)"
  by (auto simp: requeue_def andThen_def split: outcome.splits sum.splits dest: call_script)

lemma read_frame_script:
  "read_frame args dev index w = Returns r w' \<Longrightarrow> length (script w') < length (script w)"
  unfolding read_frame_def andThen_def
  by (auto split: outcome.splits sum.splits prod.splits if_splits
      dest!: call_script sys_script requeue_script load_script write_loop_script)

text \<open>
  The loop of \<open>do_capture\<close>, \<open>for (i = 0; i < count; )\<close>. The reply to \<open>select\<close> is its
  failure, or \<open>Ready b\<close> when it returns \<open>n \<ge> 0\<close>, \<open>b\<close> telling whether the device
  descriptor is left in the set: \<open>Ready False\<close> is how \<open>select\<close> reports that the
  40 ms ran out. The loop yields \<open>i\<close> and \<open>result\<close> as it leaves them.
\<close>

function capture_loop ::
  "app_args_t \<Rightarrow> video_dev_t \<Rightarrow> int \<Rightarrow> int \<Rightarrow> ERRORS \<Rightarrow> world \<Rightarrow> (int \<times> ERRORS) outcome" where
  "capture_loop args dev i count result w =
     (if i < count then
        andThen (call (SysSelect (fd dev)) is_ready w) (\<lambda>r w.
          case r of
            Inl e \<Rightarrow>
              (if e = ETIMEDOUT then capture_loop args dev i count result w
               else Returns (i, result) w)
          | Inr ready \<Rightarrow>
              (if \<not> ready then capture_loop args dev i count result w
               else
                 andThen (read_frame args dev i w) (\<lambda>result w.
                   if result \<noteq> NOERROR then Returns (i, result) w
                   else capture_loop args dev (i + 1) count result w)))
      else Returns (i, result) w)"
  by pat_completeness auto
termination
  by (relation "measure (\<lambda>(args, dev, i, count, result, w). length (script w))")
     (auto dest!: call_script read_frame_script)
declare capture_loop.simps [simp del]

definition do_capture :: "app_args_t \<Rightarrow> video_dev_t \<Rightarrow> world \<Rightarrow> ERRORS outcome" where
  "do_capture args dev w =
     andThen (start_capture dev w) (\<lambda>result w.
       if result \<noteq> NOERROR then Returns result w
       else
         andThen (capture_loop args dev 0 (cap_count args) result w) (\<lambda>(i, result) w.
         andThen (stop_capture dev w) (\<lambda>_ w. Returns result w)))"

section \<open>The program\<close>

definition initial_dev :: video_dev_t where
  "initial_dev =
     \<lparr>fd = -1, caps = 0, cropcaps = zero_rect, crop = zero_rect,
      format = \<lparr>width = 0, height = 0, pixelformat = 0, field = 0, bytesperline = 0,
                sizeimage = 0\<rparr>,
      buffers = NULL, buffer_count = 0\<rparr>"

definition main ::
  "(string \<Rightarrow> int) \<Rightarrow> string list \<Rightarrow> (char \<times> string) list \<Rightarrow> world \<Rightarrow> ERRORS outcome" where
  "main atoi argv opts w =
     (case parse_args atoi argv opts default_args of
        Exits code \<Rightarrow> Returns code w
      | Parsed rc args \<Rightarrow>
          (if rc \<noteq> 0 then Returns INVALID_ARGUMENTS w
           else
             andThen (open_video_device args initial_dev w) (\<lambda>(ret, dev) w.
               if ret \<noteq> NOERROR then Returns ret w
               else
                 andThen (init_video_device args dev w) (\<lambda>(ret, dev) w.
                 andThen (if ret = NOERROR then do_capture args dev w else Returns ret w)
                   (\<lambda>ret w.
                 andThen (close_video_device (Some dev) w) (\<lambda>_ w. Returns ret w))))))"

text \<open>The world a process starts in: nothing allocated, nothing mapped, nothing called
  yet, and the replies its environment is going to give.\<close>

definition world_of :: "reply list \<Rightarrow> world" where
  "world_of replies = \<lparr>script = replies, trace = [], heap = [], mapped = []\<rparr>"

section \<open>Vocabulary of the properties\<close>

text \<open>A device that is open on descriptor 3 with a pool of two buffers.\<close>

definition example_dev :: video_dev_t where
  "example_dev = initial_dev\<lparr>fd := 3, buffers := Addr 4096, buffer_count := 2\<rparr>"

text \<open>
  For \<open>start_capture\<close>. \<open>transient ts\<close>: every error of \<open>ts\<close> is \<open>ENOMEM\<close> or \<open>EAGAIN\<close>.
  \<open>retried f i ts\<close>: the calls made for buffer \<open>i\<close> while its enqueueing fails with the
  errors \<open>ts\<close>, a sleep of 10 ms after each. \<open>accepting tss\<close>: the replies of a kernel that
  lets the enqueueing of one buffer after the other fail with the errors of \<open>tss\<close> and
  then accepts it; \<open>enqueued f i tss\<close>: the calls the program makes against it, from
  buffer \<open>i\<close> on.
\<close>

definition transient :: "errno list \<Rightarrow> bool" where
  "transient ts = list_all (\<lambda>e. e = ENOMEM \<or> e = EAGAIN) ts"

definition retried :: "int \<Rightarrow> nat \<Rightarrow> errno list \<Rightarrow> syscall list" where
  "retried f i ts = concat (map (\<lambda>e. [VIDIOC_QBUF f i, SysUsleep 10000]) ts)"

fun enqueued :: "int \<Rightarrow> nat \<Rightarrow> errno list list \<Rightarrow> syscall list" where
  "enqueued f i [] = []"
| "enqueued f i (ts # tss) = retried f i ts @ VIDIOC_QBUF f i # enqueued f (Suc i) tss"

definition accepting :: "errno list list \<Rightarrow> reply list" where
  "accepting tss = concat (map (\<lambda>ts. map Fail ts @ [Ok]) tss)"

text \<open>
  For the capture loop. \<open>dequeues dev w\<close>: how many times \<open>VIDIOC_DQBUF\<close> was called on the
  device in the world \<open>w\<close>. \<open>timeout r\<close>: the reply \<open>r\<close> to \<open>select\<close> is a timeout, either
  the failure \<open>ETIMEDOUT\<close> the program tests for, or a return with the device descriptor
  not in the set.
\<close>

definition dequeues :: "video_dev_t \<Rightarrow> world \<Rightarrow> nat" where
  "dequeues dev w = count_list (trace w) (VIDIOC_DQBUF (fd dev))"

definition timeout :: "reply \<Rightarrow> bool" where
  "timeout r = (r = Fail ETIMEDOUT \<or> r = Ready False)"

text \<open>A world in which the pool of \<open>example_dev\<close> exists: its array of two entries at
  address 4096 and the two mappings of 16 bytes.\<close>

definition example_world :: "reply list \<Rightarrow> world" where
  "example_world replies =
     \<lparr>script = replies, trace = [],
      heap = [(4096, [Some \<lparr>addr = Addr 8192, size' = 16\<rparr>,
                      Some \<lparr>addr = Addr 12288, size' = 16\<rparr>])],
      mapped = [(Addr 8192, 16), (Addr 12288, 16)]\<rparr>"

text \<open>For \<open>read_frame\<close>: the calls of \<open>write\<close>; and what the reply \<open>q\<close> to the final
  \<open>VIDIOC_QBUF\<close> means for the result \<open>r\<close>: \<open>MEMORY_QUEUEING_FAILED\<close> exactly when the
  call fails.\<close>

definition is_write :: "syscall \<Rightarrow> bool" where
  "is_write c = (case c of SysWrite f p wrote n \<Rightarrow> True | _ \<Rightarrow> False)"

definition requeue_result :: "reply \<Rightarrow> ERRORS \<Rightarrow> bool" where
  "requeue_result q r =
     (case q of Fail e \<Rightarrow> r = MEMORY_QUEUEING_FAILED | _ \<Rightarrow> r \<noteq> MEMORY_QUEUEING_FAILED)"

text \<open>For \<open>init_video_device\<close>: the format structure that \<open>VIDIOC_S_FMT\<close> is passed for
  the arguments \<open>args\<close> and the pixel code \<open>code\<close>, and a format a device may report.\<close>

definition requested_format :: "app_args_t \<Rightarrow> u32 \<Rightarrow> v4l2_pix_format" where
  "requested_format args code =
     \<lparr>width = to_u32 (cap_width args), height = to_u32 (cap_height args),
      pixelformat = code, field = V4L2_FIELD_INTERLACED, bytesperline = 0, sizeimage = 0\<rparr>"

definition example_format :: v4l2_pix_format where
  "example_format =
     \<lparr>width = 640, height = 480, pixelformat = V4L2_PIX_FMT_YUYV, field = 4,
      bytesperline = 1280, sizeimage = 614400\<rparr>"

text \<open>
  For \<open>init_video_device\<close>: the replies to \<open>VIDIOC_S_CROP\<close> after which it goes on, the
  replies \<open>VIDIOC_G_FMT\<close> may give, a format a device may report instead of the one
  asked for, the replies of a kernel that grants and maps two buffers of 16 bytes, and
  the world these leave after the calls \<open>calls\<close>.
\<close>

definition s_crop_reply :: "reply \<Rightarrow> bool" where
  "s_crop_reply r = (r = Ok \<or> r = Fail EINVAL)"

definition g_fmt_reply :: "reply \<Rightarrow> bool" where
  "g_fmt_reply r = (case r of Format f \<Rightarrow> True | Fail e \<Rightarrow> True | _ \<Rightarrow> False)"

definition reported_format :: v4l2_pix_format where
  "reported_format =
     \<lparr>width = 320, height = 240, pixelformat = V4L2_PIX_FMT_YUYV, field = 4,
      bytesperline = 640, sizeimage = 153600\<rparr>"

definition pool_replies :: "reply list" where
  "pool_replies =
     [Granted 2, Address 4096, Buffer 16 0, Address 8192, Buffer 16 16, Address 12288]"

definition pool_world :: "syscall list \<Rightarrow> world" where
  "pool_world calls =
     \<lparr>script = [],
      trace = calls @ [VIDIOC_REQBUFS 3 2, SysMalloc 2, VIDIOC_QUERYBUF 3 0, SysMmap 16 3 0,
                       VIDIOC_QUERYBUF 3 1, SysMmap 16 3 16],
      heap = [(4096, [Some \<lparr>addr = Addr 8192, size' = 16\<rparr>,
                      Some \<lparr>addr = Addr 12288, size' = 16\<rparr>])],
      mapped = [(Addr 8192, 16), (Addr 12288, 16)]\<rparr>"

text \<open>A session that is open on descriptor 3 and has no buffer pool.\<close>

definition opened_dev :: video_dev_t where
  "opened_dev = initial_dev\<lparr>fd := 3\<rparr>"




section \<open>Properties of the pixel-format mapping\<close>

text \<open>
  Claim C9. For every format index at or beyond the number of supported formats
  (\<open>NUMBER_OF_SUPPORTED_PIXEL_FORMATS\<close>, 8) \<open>to_v4l2_pixel_format\<close> does not fail: it
  yields the table entry of the default index \<open>DEF_PIXEL_FORMAT\<close>, the code YUYV. For
  every index inside the table of supported formats it yields the entry at that index.
\<close>

theorem pixel_format_fallback:
  assumes "NUMBER_OF_SUPPORTED_PIXEL_FORMATS \<le> beyond"
    and "0 \<le> inside" and "inside < NUMBER_OF_SUPPORTED_PIXEL_FORMATS"
  shows "to_v4l2_pixel_format beyond = Some (PIXEL_FORMATS ! nat DEF_PIXEL_FORMAT)
       \<and> to_v4l2_pixel_format beyond = Some V4L2_PIX_FMT_YUYV
       \<and> to_v4l2_pixel_format inside = Some (PIXEL_FORMATS ! nat inside)"
  using assms
  by (simp add: to_v4l2_pixel_format_def array_at_def PIXEL_FORMATS_def DEF_PIXEL_FORMAT_def
      NUMBER_OF_SUPPORTED_PIXEL_FORMATS_def)

theorem pixel_format_fallback_witness:
  "to_v4l2_pixel_format 8 = Some V4L2_PIX_FMT_YUYV
   \<and> to_v4l2_pixel_format 100 = Some V4L2_PIX_FMT_YUYV
   \<and> to_v4l2_pixel_format 5 = Some V4L2_PIX_FMT_YUV420"
  using pixel_format_fallback [of 8 5] pixel_format_fallback [of 100 5]
  by (simp add: NUMBER_OF_SUPPORTED_PIXEL_FORMATS_def PIXEL_FORMATS_def DEF_PIXEL_FORMAT_def)

text \<open>
  Claim C10. Only the upper bound of the format index is guarded. For every negative
  value that \<open>atoi\<close> gives for the argument of \<open>-f\<close>: the read \<open>PIXEL_FORMATS[format]\<close> is
  outside the table of 9 entries, so \<open>to_v4l2_pixel_format\<close> has no value; \<open>parse_args\<close>
  accepts the option and stores the index, since it rejects an index exactly when it
  is at or above \<open>NUMBER_OF_SUPPORTED_PIXEL_FORMATS\<close>; and setting the format with these
  arguments runs into the out-of-bounds read.
\<close>

theorem negative_format_unguarded:
  assumes "atoi optarg < 0"
  shows "length PIXEL_FORMATS = 9
       \<and> array_at PIXEL_FORMATS (atoi optarg) = None
       \<and> to_v4l2_pixel_format (atoi optarg) = None
       \<and> parse_opts atoi [(CHR ''f'', optarg)] args = (0, args\<lparr>pixel_format := atoi optarg\<rparr>)
       \<and> (\<forall>s. (fst (parse_opts atoi [(CHR ''f'', s)] args) = -1)
              = (atoi s \<ge> NUMBER_OF_SUPPORTED_PIXEL_FORMATS))
       \<and> set_format (args\<lparr>pixel_format := atoi optarg\<rparr>) dev w = Undefined"
  using assms
  by (simp add: to_v4l2_pixel_format_def array_at_def PIXEL_FORMATS_def set_format_def
      NUMBER_OF_SUPPORTED_PIXEL_FORMATS_def Let_def)

theorem negative_format_unguarded_witness:
  "parse_opts (\<lambda>s. if s = ''-1'' then -1 else 0) [(CHR ''f'', ''-1'')] default_args
     = (0, default_args\<lparr>pixel_format := -1\<rparr>)
   \<and> to_v4l2_pixel_format (-1) = None
   \<and> set_format (default_args\<lparr>pixel_format := -1\<rparr>) initial_dev (world_of []) = Undefined"
  using negative_format_unguarded
    [of "\<lambda>s. if s = ''-1'' then -1 else 0" "''-1''" default_args initial_dev "world_of []"]
  by simp

section \<open>Properties of the start of the capture\<close>

lemma enqueue_retry_transient:
  "transient ts \<Longrightarrow> retry + int (length ts) \<le> 5 \<Longrightarrow>
   enqueue_retry f i retry \<lparr>script = map Fail ts @ rest, trace = t, heap = h, mapped = m\<rparr>
   = enqueue_retry f i (retry + int (length ts))
       \<lparr>script = rest, trace = t @ retried f i ts, heap = h, mapped = m\<rparr>"
proof (induction ts arbitrary: retry t)
  case Nil
  show ?case by (simp add: retried_def)
next
  case (Cons e ts)
  from Cons.prems have e: "e = ENOMEM \<or> e = EAGAIN" and ts: "transient ts"
    and r: "retry < 5" and r': "(retry + 1) + int (length ts) \<le> 5"
    by (auto simp: transient_def)
  have "enqueue_retry f i retry
          \<lparr>script = map Fail (e # ts) @ rest, trace = t, heap = h, mapped = m\<rparr>
        = enqueue_retry f i (retry + 1)
          \<lparr>script = map Fail ts @ rest, trace = t @ [VIDIOC_QBUF f i, SysUsleep 10000],
           heap = h, mapped = m\<rparr>"
    using e r
    by (subst enqueue_retry.simps)
       (auto simp: call_def sys_def andThen_def usleep_def)
  also have "\<dots> = enqueue_retry f i (retry + 1 + int (length ts))
          \<lparr>script = rest, trace = (t @ [VIDIOC_QBUF f i, SysUsleep 10000]) @ retried f i ts,
           heap = h, mapped = m\<rparr>"
    by (rule Cons.IH [OF ts r'])
  finally show ?case by (simp add: retried_def add.assoc)
qed

lemma enqueue_retry_exhausted: "enqueue_retry f i 5 w = Returns (5, NOERROR) w"
  by (subst enqueue_retry.simps) simp

lemma enqueue_retry_Ok:
  "retry < 5 \<Longrightarrow>
   enqueue_retry f i retry \<lparr>script = Ok # rest, trace = t, heap = h, mapped = m\<rparr>
   = Returns (retry, NOERROR)
       \<lparr>script = rest, trace = t @ [VIDIOC_QBUF f i], heap = h, mapped = m\<rparr>"
  by (subst enqueue_retry.simps) (simp add: call_def sys_def andThen_def is_ok_def)

lemma enqueue_retry_EINVAL:
  "retry < 5 \<Longrightarrow>
   enqueue_retry f i retry \<lparr>script = Fail EINVAL # rest, trace = t, heap = h, mapped = m\<rparr>
   = Returns (retry, MEMORY_QUEUEING_FAILED)
       \<lparr>script = rest, trace = t @ [VIDIOC_QBUF f i], heap = h, mapped = m\<rparr>"
  by (subst enqueue_retry.simps) (simp add: call_def sys_def andThen_def)

lemma enqueue_retry_EIO:
  "retry < 5 \<Longrightarrow>
   enqueue_retry f i retry \<lparr>script = Fail EIO # rest, trace = t, heap = h, mapped = m\<rparr>
   = Returns (retry, IO_ERROR)
       \<lparr>script = rest, trace = t @ [VIDIOC_QBUF f i], heap = h, mapped = m\<rparr>"
  by (subst enqueue_retry.simps) (simp add: call_def sys_def andThen_def)

lemma enqueue_all_accepting:
  "\<forall>ts \<in> set tss. length ts < 5 \<and> transient ts \<Longrightarrow> i + length tss \<le> count \<Longrightarrow>
   enqueue_all f i count \<lparr>script = accepting tss @ rest, trace = t, heap = h, mapped = m\<rparr>
   = enqueue_all f (i + length tss) count
       \<lparr>script = rest, trace = t @ enqueued f i tss, heap = h, mapped = m\<rparr>"
proof (induction tss arbitrary: i t)
  case Nil
  show ?case by (simp add: accepting_def)
next
  case (Cons ts tss)
  from Cons.prems have len: "length ts < 5" and ts: "transient ts"
    and rest: "\<forall>ts \<in> set tss. length ts < 5 \<and> transient ts"
    and i: "i < count" and i': "Suc i + length tss \<le> count"
    by auto
  have one: "enqueue_retry f i 0
          \<lparr>script = map Fail ts @ Ok # accepting tss @ rest, trace = t, heap = h, mapped = m\<rparr>
        = Returns (int (length ts), NOERROR)
          \<lparr>script = accepting tss @ rest, trace = t @ retried f i ts @ [VIDIOC_QBUF f i],
           heap = h, mapped = m\<rparr>"
    using len ts by (simp add: enqueue_retry_transient enqueue_retry_Ok)
  have "enqueue_all f i count
          \<lparr>script = accepting (ts # tss) @ rest, trace = t, heap = h, mapped = m\<rparr>
        = enqueue_all f (Suc i) count
          \<lparr>script = accepting tss @ rest, trace = t @ retried f i ts @ [VIDIOC_QBUF f i],
           heap = h, mapped = m\<rparr>"
    using i len
    by (subst enqueue_all.simps)
       (simp add: accepting_def [of "ts # tss"] accepting_def [symmetric] one andThen_def)
  also have "\<dots> = enqueue_all f (Suc i + length tss) count
          \<lparr>script = rest,
           trace = (t @ retried f i ts @ [VIDIOC_QBUF f i]) @ enqueued f (Suc i) tss,
           heap = h, mapped = m\<rparr>"
    by (rule Cons.IH [OF rest i'])
  finally show ?case by simp
qed

text \<open>
  Claim C5. Let the buffers before some buffer of the pool be enqueued, each after
  fewer than 5 transient failures (\<open>before\<close>), and let the kernel then answer for that
  buffer. Five transient failures (\<open>ENOMEM\<close> or \<open>EAGAIN\<close>), each followed by a sleep, use
  up the 5 attempts: \<open>start_capture\<close> returns \<open>MEMORY_QUEUEING_FAILED\<close> and asks no
  sixth time, whatever the kernel would reply next (\<open>rest\<close>). After fewer than 5
  transient failures, \<open>EINVAL\<close> gives \<open>MEMORY_QUEUEING_FAILED\<close> and \<open>EIO\<close> gives \<open>IO_ERROR\<close>
  at once: the failing call is the last one made. When every buffer of the pool is
  accepted after fewer than 5 transient failures (\<open>every\<close>) and streaming is switched
  on, \<open>start_capture\<close> returns \<open>NOERROR\<close>.
\<close>

theorem start_capture_retry:
  assumes before: "\<forall>ts \<in> set before. length ts < 5 \<and> transient ts"
    and index: "length before < to_u32 (buffer_count dev)"
    and short: "length short < 5" "transient short"
    and five: "length five = 5" "transient five"
    and every: "\<forall>ts \<in> set every. length ts < 5 \<and> transient ts"
      "length every = to_u32 (buffer_count dev)"
  shows "start_capture dev (w\<lparr>script := accepting before @ map Fail five @ rest\<rparr>)
         = Returns MEMORY_QUEUEING_FAILED
             (w\<lparr>script := rest,
                trace := trace w @ enqueued (fd dev) 0 before
                           @ retried (fd dev) (length before) five\<rparr>)
       \<and> start_capture dev (w\<lparr>script := accepting before @ map Fail short @ Fail EINVAL # rest\<rparr>)
         = Returns MEMORY_QUEUEING_FAILED
             (w\<lparr>script := rest,
                trace := trace w @ enqueued (fd dev) 0 before
                           @ retried (fd dev) (length before) short
                           @ [VIDIOC_QBUF (fd dev) (length before)]\<rparr>)
       \<and> start_capture dev (w\<lparr>script := accepting before @ map Fail short @ Fail EIO # rest\<rparr>)
         = Returns IO_ERROR
             (w\<lparr>script := rest,
                trace := trace w @ enqueued (fd dev) 0 before
                           @ retried (fd dev) (length before) short
                           @ [VIDIOC_QBUF (fd dev) (length before)]\<rparr>)
       \<and> start_capture dev (w\<lparr>script := accepting every @ Ok # rest\<rparr>)
         = Returns NOERROR
             (w\<lparr>script := rest,
                trace := trace w @ enqueued (fd dev) 0 every @ [VIDIOC_STREAMON (fd dev)]\<rparr>)"
proof -
  obtain s t h m where w: "w = \<lparr>script = s, trace = t, heap = h, mapped = m\<rparr>"
    by (cases w) auto
  let ?f = "fd dev" and ?n = "to_u32 (buffer_count dev)" and ?i = "length before"
  have le: "0 + ?i \<le> ?n" using index by simp
  note skip = enqueue_all_accepting [OF before le, where f = ?f and h = h and m = m and t = t]
  have a: "start_capture dev (w\<lparr>script := accepting before @ map Fail five @ rest\<rparr>)
         = Returns MEMORY_QUEUEING_FAILED
             (w\<lparr>script := rest,
                trace := trace w @ enqueued ?f 0 before @ retried ?f ?i five\<rparr>)"
    using index five
    by (simp add: w start_capture_def skip enqueue_all.simps [of _ ?i]
        enqueue_retry_transient [where retry = 0, simplified] enqueue_retry_exhausted andThen_def)
  have b: "start_capture dev (w\<lparr>script := accepting before @ map Fail short @ Fail EINVAL # rest\<rparr>)
         = Returns MEMORY_QUEUEING_FAILED
             (w\<lparr>script := rest,
                trace := trace w @ enqueued ?f 0 before @ retried ?f ?i short
                           @ [VIDIOC_QBUF ?f ?i]\<rparr>)"
    using index short
    by (simp add: w start_capture_def skip enqueue_all.simps [of _ ?i]
        enqueue_retry_transient [where retry = 0, simplified] enqueue_retry_EINVAL andThen_def)
  have c: "start_capture dev (w\<lparr>script := accepting before @ map Fail short @ Fail EIO # rest\<rparr>)
         = Returns IO_ERROR
             (w\<lparr>script := rest,
                trace := trace w @ enqueued ?f 0 before @ retried ?f ?i short
                           @ [VIDIOC_QBUF ?f ?i]\<rparr>)"
    using index short
    by (simp add: w start_capture_def skip enqueue_all.simps [of _ ?i]
        enqueue_retry_transient [where retry = 0, simplified] enqueue_retry_EIO andThen_def)
  have le': "0 + length every \<le> ?n" using every by simp
  have d: "start_capture dev (w\<lparr>script := accepting every @ Ok # rest\<rparr>)
         = Returns NOERROR
             (w\<lparr>script := rest,
                trace := trace w @ enqueued ?f 0 every @ [VIDIOC_STREAMON ?f]\<rparr>)"
    using every(2)
    by (simp add: w start_capture_def
        enqueue_all_accepting [OF every(1) le', where f = ?f and h = h and m = m and t = t]
        enqueue_all.simps [of _ ?n] call_def sys_def andThen_def is_ok_def)
  from a b c d show ?thesis by blast
qed

text \<open>The scenarios of the claim on a pool of two buffers: three transient failures and
  then success for buffer 0; six consecutive transient failures for buffer 1, of which
  the sixth is never asked for; \<open>EINVAL\<close> and \<open>EIO\<close> after one transient failure.\<close>

theorem start_capture_retry_witness:
  "start_capture example_dev
     (world_of [Fail ENOMEM, Fail EAGAIN, Fail ENOMEM, Ok, Ok, Ok])
   = Returns NOERROR
       \<lparr>script = [],
        trace = [VIDIOC_QBUF 3 0, SysUsleep 10000, VIDIOC_QBUF 3 0, SysUsleep 10000,
                 VIDIOC_QBUF 3 0, SysUsleep 10000, VIDIOC_QBUF 3 0, VIDIOC_QBUF 3 1,
                 VIDIOC_STREAMON 3],
        heap = [], mapped = []\<rparr>
   \<and> start_capture example_dev
     (world_of [Ok, Fail ENOMEM, Fail ENOMEM, Fail ENOMEM, Fail ENOMEM, Fail ENOMEM, Fail ENOMEM])
   = Returns MEMORY_QUEUEING_FAILED
       \<lparr>script = [Fail ENOMEM],
        trace = [VIDIOC_QBUF 3 0, VIDIOC_QBUF 3 1, SysUsleep 10000, VIDIOC_QBUF 3 1,
                 SysUsleep 10000, VIDIOC_QBUF 3 1, SysUsleep 10000, VIDIOC_QBUF 3 1,
                 SysUsleep 10000, VIDIOC_QBUF 3 1, SysUsleep 10000],
        heap = [], mapped = []\<rparr>
   \<and> start_capture example_dev (world_of [Ok, Fail EAGAIN, Fail EINVAL])
   = Returns MEMORY_QUEUEING_FAILED
       \<lparr>script = [],
        trace = [VIDIOC_QBUF 3 0, VIDIOC_QBUF 3 1, SysUsleep 10000, VIDIOC_QBUF 3 1],
        heap = [], mapped = []\<rparr>
   \<and> start_capture example_dev (world_of [Ok, Fail EAGAIN, Fail EIO])
   = Returns IO_ERROR
       \<lparr>script = [],
        trace = [VIDIOC_QBUF 3 0, VIDIOC_QBUF 3 1, SysUsleep 10000, VIDIOC_QBUF 3 1],
        heap = [], mapped = []\<rparr>"
  using start_capture_retry
    [where before = "[[]]" and dev = example_dev and short = "[EAGAIN]"
       and five = "[ENOMEM, ENOMEM, ENOMEM, ENOMEM, ENOMEM]"
       and every = "[[ENOMEM, EAGAIN, ENOMEM], []]" and w = "world_of []"
       and rest = "[]"]
    start_capture_retry
    [where before = "[[]]" and dev = example_dev and short = "[EAGAIN]"
       and five = "[ENOMEM, ENOMEM, ENOMEM, ENOMEM, ENOMEM]"
       and every = "[[ENOMEM, EAGAIN, ENOMEM], []]" and w = "world_of []"
       and rest = "[Fail ENOMEM]"]
  by (simp add: example_dev_def initial_dev_def world_of_def transient_def accepting_def
      retried_def to_u32_def)

section \<open>Properties of the capture loop\<close>

lemma sys_trace: "sys c w = Returns r w' \<Longrightarrow> trace w' = trace w @ [c]"
  by (auto simp: sys_def split: list.splits)

lemma call_trace: "call c d w = Returns r w' \<Longrightarrow> trace w' = trace w @ [c]"
  by (auto simp: call_def andThen_def split: outcome.splits reply.splits option.splits
      dest: sys_trace)

lemma load_world: "load p i w = Returns r w' \<Longrightarrow> w' = w"
  by (auto simp: load_def split: ptr.splits option.splits if_splits)

lemma write_loop_dequeues:
  "write_loop f p sz len wrote w = Returns r w' \<Longrightarrow> dequeues dev w' = dequeues dev w"
proof (induction f p sz len wrote w rule: write_loop.induct)
  case (1 f p sz len wrote w)
  note unfold = write_loop.simps [of f p sz len wrote w]
  show ?case
  proof (cases "to_u32 wrote < len")
    case False
    with "1.prems" show ?thesis by (simp add: unfold)
  next
    case True
    with "1.prems" obtain x w1 where
      c: "call (SysWrite f p wrote (to_u32 (int sz - wrote))) is_written w = Returns x w1"
      by (auto simp: unfold andThen_def split: outcome.splits)
    have w1: "dequeues dev w1 = dequeues dev w"
      using call_trace [OF c] by (simp add: dequeues_def)
    show ?thesis
    proof (cases x)
      case (Inl e)
      with True c "1.prems" w1 show ?thesis by (simp add: unfold andThen_def)
    next
      case (Inr n)
      with True c "1.prems" have "write_loop f p sz len (wrote + int n) w1 = Returns r w'"
        by (simp add: unfold andThen_def)
      from "1.IH" [OF True c Inr this] w1 show ?thesis by simp
    qed
  qed
qed

lemma requeue_dequeues:
  "requeue dev i res w = Returns r w' \<Longrightarrow> dequeues dev w' = dequeues dev w"
  by (auto simp: requeue_def andThen_def dequeues_def split: outcome.splits sum.splits
      dest!: call_trace)

lemma read_frame_dequeues:
  assumes "read_frame args dev index w = Returns r w'"
  shows "dequeues dev w' = Suc (dequeues dev w)"
proof -
  from assms obtain x w1 where c: "call (VIDIOC_DQBUF (fd dev)) is_dequeued w = Returns x w1"
    by (auto simp: read_frame_def andThen_def split: outcome.splits)
  have w1: "dequeues dev w1 = Suc (dequeues dev w)"
    using call_trace [OF c] by (simp add: dequeues_def)
  show ?thesis
  proof (cases x)
    case (Inl e)
    with assms c w1 show ?thesis by (simp add: read_frame_def andThen_def)
  next
    case (Inr b)
    obtain bi bl where b: "b = (bi, bl)" by (cases b)
    from assms c Inr b have ok: "bi < to_u32 (buffer_count dev)"
      by (auto simp: read_frame_def andThen_def split: if_splits)
    with assms c Inr b obtain y w2 where
      o: "call (SysCreate (cap_prefix args) index) is_fd w1 = Returns y w2"
      by (auto simp: read_frame_def andThen_def split: outcome.splits)
    have w2: "dequeues dev w2 = dequeues dev w1"
      using call_trace [OF o] by (simp add: dequeues_def)
    show ?thesis
    proof (cases y)
      case (Inl e)
      with assms c Inr b ok o have
        "requeue dev bi (if e = EPERM then NOT_PERMITTED else IO_FILE_NOT_CREATED) w2 = Returns r w'"
        by (auto simp: read_frame_def andThen_def)
      from requeue_dequeues [OF this] w1 w2 show ?thesis by simp
    next
      case (Inr f)
      with assms c \<open>x = Inr b\<close> b ok o obtain vb w3 w4 z w5 where
        l: "load (buffers dev) bi w2 = Returns vb w3"
        and wl: "write_loop f (addr vb) (size' vb) bl 0 w3 = Returns () w4"
        and cl: "sys (SysClose f) w4 = Returns z w5"
        and rq: "requeue dev bi NOERROR w5 = Returns r w'"
        by (auto simp: read_frame_def andThen_def split: outcome.splits)
      have "dequeues dev w5 = dequeues dev w4"
        using sys_trace [OF cl] by (simp add: dequeues_def)
      with load_world [OF l] write_loop_dequeues [OF wl] requeue_dequeues [OF rq] w1 w2
      show ?thesis by simp
    qed
  qed
qed


lemma capture_loop_timeouts:
  "list_all timeout ts \<Longrightarrow> i < count \<Longrightarrow>
   capture_loop args dev i count result
     \<lparr>script = ts @ rest, trace = t, heap = h, mapped = m\<rparr>
   = capture_loop args dev i count result
     \<lparr>script = rest, trace = t @ replicate (length ts) (SysSelect (fd dev)), heap = h,
      mapped = m\<rparr>"
proof (induction ts arbitrary: t)
  case Nil
  show ?case by simp
next
  case (Cons r ts)
  from Cons.prems have ts: "list_all timeout ts" and "timeout r"
    by simp_all
  then have r: "r = Fail ETIMEDOUT \<or> r = Ready False"
    by (simp add: timeout_def)
  have "capture_loop args dev i count result
          \<lparr>script = (r # ts) @ rest, trace = t, heap = h, mapped = m\<rparr>
        = capture_loop args dev i count result
          \<lparr>script = ts @ rest, trace = t @ [SysSelect (fd dev)], heap = h, mapped = m\<rparr>"
    using r Cons.prems(2)
    by (subst capture_loop.simps) (auto simp: call_def sys_def andThen_def is_ready_def)
  also have "\<dots> = capture_loop args dev i count result
          \<lparr>script = rest,
           trace = (t @ [SysSelect (fd dev)]) @ replicate (length ts) (SysSelect (fd dev)),
           heap = h, mapped = m\<rparr>"
    by (rule Cons.IH [OF ts Cons.prems(2)])
  finally show ?case by (simp add: replicate_append_same)
qed

lemma capture_loop_counts:
  "capture_loop args dev i count result w = Returns (i', result') w' \<Longrightarrow>
   i \<le> i' \<and> int (dequeues dev w) + (i' - i) \<le> int (dequeues dev w')
   \<and> int (dequeues dev w') \<le> int (dequeues dev w) + (i' - i) + 1"
proof (induction args dev i count result w rule: capture_loop.induct)
  case (1 args dev i count result w)
  note unfold = capture_loop.simps [of args dev i count result w]
  show ?case
  proof (cases "i < count")
    case False
    with "1.prems" show ?thesis by (simp add: unfold)
  next
    case True
    with "1.prems" obtain r w1 where
      c: "call (SysSelect (fd dev)) is_ready w = Returns r w1"
      by (auto simp: unfold andThen_def split: outcome.splits)
    have w1: "dequeues dev w1 = dequeues dev w"
      using call_trace [OF c] by (simp add: dequeues_def)
    show ?thesis
    proof (cases r)
      case (Inl e)
      show ?thesis
      proof (cases "e = ETIMEDOUT")
        case True
        with \<open>i < count\<close> c Inl "1.prems"
        have "capture_loop args dev i count result w1 = Returns (i', result') w'"
          by (simp add: unfold andThen_def)
        from "1.IH"(1) [OF \<open>i < count\<close> c Inl True this] w1 show ?thesis by simp
      next
        case False
        with \<open>i < count\<close> c Inl "1.prems" w1 show ?thesis
          by (simp add: unfold andThen_def)
      qed
    next
      case (Inr ready)
      show ?thesis
      proof (cases ready)
        case False
        with \<open>i < count\<close> c Inr "1.prems"
        have "capture_loop args dev i count result w1 = Returns (i', result') w'"
          by (simp add: unfold andThen_def)
        from "1.IH"(2) [OF \<open>i < count\<close> c Inr _ this] False w1 show ?thesis by simp
      next
        case True
        with \<open>i < count\<close> c Inr "1.prems" obtain res w2 where
          rf: "read_frame args dev i w1 = Returns res w2"
          by (auto simp: unfold andThen_def split: outcome.splits)
        note w2 = read_frame_dequeues [OF rf]
        show ?thesis
        proof (cases "res = NOERROR")
          case False
          with \<open>i < count\<close> c Inr True rf "1.prems" w1 w2 show ?thesis
            by (simp add: unfold andThen_def)
        next
          case ok: True
          with \<open>i < count\<close> c Inr True rf "1.prems"
          have "capture_loop args dev (i + 1) count res w2 = Returns (i', result') w'"
            by (simp add: unfold andThen_def)
          from "1.IH"(3) [OF \<open>i < count\<close> c Inr _ rf _ this] True ok w1 w2 show ?thesis
            by simp
        qed
      qed
    qed
  qed
qed


text \<open>
  Claim C7. In the loop of \<open>do_capture\<close> a readiness wait that times out leaves the frame
  counter \<open>i\<close>, the target \<open>count\<close> and \<open>result\<close> as they are, for any number of
  consecutive timeouts \<open>ts\<close>: the loop goes on in the same state, with only the \<open>select\<close>
  calls made. A dequeue that fails ends the loop with the counter where it was. Over
  any run of the loop that returns, the counter never goes down, and every step it
  goes up is paid by one call of \<open>VIDIOC_DQBUF\<close>, at most one such call (the one that
  ended the loop) not being counted.
\<close>

theorem timeouts_keep_frame_counter:
  assumes "list_all timeout ts" and "i < count"
    and "capture_loop args dev j n res w = Returns (j', res') w'"
  shows "capture_loop args dev i count result (v\<lparr>script := ts @ rest\<rparr>)
         = capture_loop args dev i count result
             (v\<lparr>script := rest,
                trace := trace v @ replicate (length ts) (SysSelect (fd dev))\<rparr>)
       \<and> capture_loop args dev i count result (v\<lparr>script := ts @ Ready True # Fail e # rest\<rparr>)
         = Returns (i, MEMORY_DEQUEUEING_FAILED)
             (v\<lparr>script := rest,
                trace := trace v @ replicate (length ts) (SysSelect (fd dev))
                           @ [SysSelect (fd dev), VIDIOC_DQBUF (fd dev)]\<rparr>)
       \<and> j \<le> j'
       \<and> int (dequeues dev w) + (j' - j) \<le> int (dequeues dev w')
       \<and> int (dequeues dev w') \<le> int (dequeues dev w) + (j' - j) + 1"
proof -
  obtain s t h m where v: "v = \<lparr>script = s, trace = t, heap = h, mapped = m\<rparr>"
    by (cases v) auto
  note skip = capture_loop_timeouts [OF assms(1,2), where h = h and m = m and t = t]
  have a: "capture_loop args dev i count result (v\<lparr>script := ts @ rest\<rparr>)
         = capture_loop args dev i count result
             (v\<lparr>script := rest,
                trace := trace v @ replicate (length ts) (SysSelect (fd dev))\<rparr>)"
    by (simp add: v skip)
  have b: "capture_loop args dev i count result (v\<lparr>script := ts @ Ready True # Fail e # rest\<rparr>)
         = Returns (i, MEMORY_DEQUEUEING_FAILED)
             (v\<lparr>script := rest,
                trace := trace v @ replicate (length ts) (SysSelect (fd dev))
                           @ [SysSelect (fd dev), VIDIOC_DQBUF (fd dev)]\<rparr>)"
    using assms(2)
    by (simp add: v skip capture_loop.simps [of _ _ _ _ _ "\<lparr>script = Ready True # _, trace = _, heap = _, mapped = _\<rparr>"]
        read_frame_def call_def sys_def andThen_def is_ready_def)
  from a b capture_loop_counts [OF assms(3)] show ?thesis by blast
qed

text \<open>Three timeouts and a failed dequeue leave the counter at 0; two timeouts and then a
  frame that is dequeued, written and enqueued again bring it to 1.\<close>

theorem timeouts_keep_frame_counter_witness:
  "capture_loop default_args example_dev 0 1 NOERROR
     (example_world [Ready False, Fail ETIMEDOUT, Ready False, Ready True, Fail EIO])
   = Returns (0, MEMORY_DEQUEUEING_FAILED)
       ((example_world [])\<lparr>trace := [SysSelect 3, SysSelect 3, SysSelect 3, SysSelect 3,
                                        VIDIOC_DQBUF 3]\<rparr>)
   \<and> capture_loop default_args example_dev 0 1 NOERROR
     (example_world [Ready False, Fail ETIMEDOUT, Ready True, Dequeued 1 16, Fd 5, Written 16,
                     Ok, Ok])
   = Returns (1, NOERROR)
       ((example_world [])\<lparr>trace := [SysSelect 3, SysSelect 3, SysSelect 3, VIDIOC_DQBUF 3,
            SysCreate ''video.cap'' 0, SysWrite 5 (Addr 12288) 0 16, SysClose 5,
            VIDIOC_QBUF 3 1]\<rparr>)"
proof -
  have run: "capture_loop default_args example_dev 0 1 NOERROR
     (example_world [Ready True, Dequeued 1 16, Fd 5, Written 16, Ok, Ok])
   = Returns (1, NOERROR)
       ((example_world [])\<lparr>trace := [SysSelect 3, VIDIOC_DQBUF 3,
            SysCreate ''video.cap'' 0, SysWrite 5 (Addr 12288) 0 16, SysClose 5,
            VIDIOC_QBUF 3 1]\<rparr>)"
    by (simp add: capture_loop.simps write_loop.simps read_frame_def requeue_def load_def
        call_def sys_def andThen_def is_ready_def is_dequeued_def is_fd_def is_written_def
        is_ok_def example_world_def example_dev_def initial_dev_def default_args_def
        DEF_CAPTURE_PREFIX_def to_u32_def)
  show ?thesis
    using timeouts_keep_frame_counter
      [where ts = "[Ready False, Fail ETIMEDOUT, Ready False]" and i = 0 and count = 1
         and args = default_args and dev = example_dev and result = NOERROR
         and v = "example_world []" and rest = "[]" and e = EIO
         and j = 0 and n = 1 and res = NOERROR
         and w = "example_world [Ready True, Dequeued 1 16, Fd 5, Written 16, Ok, Ok]",
       OF _ _ run]
      timeouts_keep_frame_counter
      [where ts = "[Ready False, Fail ETIMEDOUT]" and i = 0 and count = 1
         and args = default_args and dev = example_dev and result = NOERROR
         and v = "example_world []"
         and rest = "[Ready True, Dequeued 1 16, Fd 5, Written 16, Ok, Ok]" and e = EIO
         and j = 0 and n = 1 and res = NOERROR
         and w = "example_world [Ready True, Dequeued 1 16, Fd 5, Written 16, Ok, Ok]",
       OF _ _ run]
    by (simp add: timeout_def capture_loop.simps write_loop.simps read_frame_def requeue_def
        load_def call_def sys_def andThen_def is_ready_def is_dequeued_def is_fd_def
        is_written_def is_ok_def example_world_def example_dev_def initial_dev_def
        default_args_def DEF_CAPTURE_PREFIX_def to_u32_def)
qed

section \<open>Properties of the frame acquisition\<close>

lemma load_same_heap:
  "load p i w = Returns b w \<Longrightarrow> heap w' = heap w \<Longrightarrow> load p i w' = Returns b w'"
  by (auto simp: load_def split: ptr.splits option.splits if_splits)

lemma write_loop_trace:
  "write_loop f p sz len wrote w = Returns r w' \<Longrightarrow>
   \<exists>calls. trace w' = trace w @ calls \<and> list_all is_write calls"
proof (induction f p sz len wrote w rule: write_loop.induct)
  case (1 f p sz len wrote w)
  note unfold = write_loop.simps [of f p sz len wrote w]
  show ?case
  proof (cases "to_u32 wrote < len")
    case False
    with "1.prems" show ?thesis by (simp add: unfold)
  next
    case True
    with "1.prems" obtain x w1 where
      c: "call (SysWrite f p wrote (to_u32 (int sz - wrote))) is_written w = Returns x w1"
      by (auto simp: unfold andThen_def split: outcome.splits)
    note w1 = call_trace [OF c]
    show ?thesis
    proof (cases x)
      case (Inl e)
      with True c "1.prems" w1 show ?thesis by (simp add: unfold andThen_def is_write_def)
    next
      case (Inr n)
      with True c "1.prems" have "write_loop f p sz len (wrote + int n) w1 = Returns r w'"
        by (simp add: unfold andThen_def)
      from "1.IH" [OF True c Inr this] w1 show ?thesis by (auto simp: is_write_def)
    qed
  qed
qed

lemma requeue_trace:
  "requeue dev i res w = Returns r w' \<Longrightarrow> trace w' = trace w @ [VIDIOC_QBUF (fd dev) i]"
  by (auto simp: requeue_def andThen_def split: outcome.splits sum.splits dest!: call_trace)

lemma read_frame_requeues:
  assumes "read_frame args dev index w = Returns r w'"
    and "script w = Dequeued k len # rest"
  shows "k < to_u32 (buffer_count dev) \<and>
    (\<exists>calls. trace w' = trace w @ VIDIOC_DQBUF (fd dev) # calls @ [VIDIOC_QBUF (fd dev) k]
       \<and> VIDIOC_DQBUF (fd dev) \<notin> set calls \<and> VIDIOC_QBUF (fd dev) k \<notin> set calls)"
proof -
  obtain w1 where c: "call (VIDIOC_DQBUF (fd dev)) is_dequeued w = Returns (Inr (k, len)) w1"
    using assms(2) by (simp add: call_def sys_def andThen_def is_dequeued_def)
  note w1 = call_trace [OF c]
  from assms(1) c have ok: "k < to_u32 (buffer_count dev)"
    by (auto simp: read_frame_def andThen_def split: if_splits)
  with assms(1) c obtain y w2 where
    o: "call (SysCreate (cap_prefix args) index) is_fd w1 = Returns y w2"
    by (auto simp: read_frame_def andThen_def split: outcome.splits)
  note w2 = call_trace [OF o]
  have "\<exists>calls. trace w' = trace w @ VIDIOC_DQBUF (fd dev) # calls @ [VIDIOC_QBUF (fd dev) k]
       \<and> VIDIOC_DQBUF (fd dev) \<notin> set calls \<and> VIDIOC_QBUF (fd dev) k \<notin> set calls"
  proof (cases y)
    case (Inl e)
    with assms(1) c ok o have
      "requeue dev k (if e = EPERM then NOT_PERMITTED else IO_FILE_NOT_CREATED) w2 = Returns r w'"
      by (auto simp: read_frame_def andThen_def)
    from requeue_trace [OF this] w1 w2 show ?thesis by simp
  next
    case (Inr f)
    with assms(1) c ok o obtain vb w3 w4 z w5 where
      l: "load (buffers dev) k w2 = Returns vb w3"
      and wl: "write_loop f (addr vb) (size' vb) len 0 w3 = Returns () w4"
      and cl: "sys (SysClose f) w4 = Returns z w5"
      and rq: "requeue dev k NOERROR w5 = Returns r w'"
      by (auto simp: read_frame_def andThen_def split: outcome.splits)
    from write_loop_trace [OF wl] obtain ws where
      ws: "trace w4 = trace w3 @ ws" "list_all is_write ws" by blast
    from ws(2) have "VIDIOC_DQBUF (fd dev) \<notin> set ws \<and> VIDIOC_QBUF (fd dev) k \<notin> set ws"
      by (auto simp: list_all_iff is_write_def)
    with load_world [OF l] ws(1) sys_trace [OF cl] requeue_trace [OF rq] w1 w2
    show ?thesis by simp
  qed
  with ok show ?thesis by simp
qed


lemma sys_consumes: "sys c w = Returns r w' \<Longrightarrow> script w = r # script w'"
  by (auto simp: sys_def split: list.splits)

lemma call_consumes: "call c d w = Returns r w' \<Longrightarrow> \<exists>q. script w = q # script w'"
  by (auto simp: call_def andThen_def split: outcome.splits reply.splits option.splits
      dest: sys_consumes)

lemma write_loop_consumes:
  "write_loop f p sz len wrote w = Returns r w' \<Longrightarrow> \<exists>used. script w = used @ script w'"
proof (induction f p sz len wrote w rule: write_loop.induct)
  case (1 f p sz len wrote w)
  note unfold = write_loop.simps [of f p sz len wrote w]
  show ?case
  proof (cases "to_u32 wrote < len")
    case False
    with "1.prems" show ?thesis by (simp add: unfold)
  next
    case True
    with "1.prems" obtain x w1 where
      c: "call (SysWrite f p wrote (to_u32 (int sz - wrote))) is_written w = Returns x w1"
      by (auto simp: unfold andThen_def split: outcome.splits)
    from call_consumes [OF c] obtain q where q: "script w = q # script w1" by blast
    show ?thesis
    proof (cases x)
      case (Inl e)
      with True c "1.prems" q show ?thesis by (auto simp: unfold andThen_def)
    next
      case (Inr n)
      with True c "1.prems" have "write_loop f p sz len (wrote + int n) w1 = Returns r w'"
        by (simp add: unfold andThen_def)
      from "1.IH" [OF True c Inr this] q show ?thesis
        by (metis append_Cons)
    qed
  qed
qed

lemma requeue_reply:
  assumes "requeue dev i res w = Returns r w'" and "res \<noteq> MEMORY_QUEUEING_FAILED"
  shows "\<exists>q. script w = q # script w' \<and> requeue_result q r"
proof -
  from assms(1) obtain q w1 where s: "sys (VIDIOC_QBUF (fd dev) i) w = Returns q w1"
    by (auto simp: requeue_def call_def andThen_def split: outcome.splits)
  from assms s have "w' = w1 \<and> requeue_result q r"
    by (cases q) (simp_all add: requeue_def call_def andThen_def requeue_result_def is_ok_def)
  with sys_consumes [OF s] show ?thesis by blast
qed

lemma read_frame_consumes:
  assumes "read_frame args dev index w = Returns r w'"
    and "script w = Dequeued k len # rest"
  shows "\<exists>used q. rest = used @ q # script w' \<and> requeue_result q r"
proof -
  obtain w1 where c: "call (VIDIOC_DQBUF (fd dev)) is_dequeued w = Returns (Inr (k, len)) w1"
    and w1: "script w1 = rest"
    using assms(2) by (simp add: call_def sys_def andThen_def is_dequeued_def)
  from assms(1) c have ok: "k < to_u32 (buffer_count dev)"
    by (auto simp: read_frame_def andThen_def split: if_splits)
  with assms(1) c obtain y w2 where
    o: "call (SysCreate (cap_prefix args) index) is_fd w1 = Returns y w2"
    by (auto simp: read_frame_def andThen_def split: outcome.splits)
  from call_consumes [OF o] w1 obtain q1 where q1: "rest = q1 # script w2" by auto
  show ?thesis
  proof (cases y)
    case (Inl e)
    with assms(1) c ok o have
      "requeue dev k (if e = EPERM then NOT_PERMITTED else IO_FILE_NOT_CREATED) w2 = Returns r w'"
      by (auto simp: read_frame_def andThen_def)
    moreover have "(if e = EPERM then NOT_PERMITTED else IO_FILE_NOT_CREATED)
                   \<noteq> MEMORY_QUEUEING_FAILED"
      by simp
    ultimately obtain q where "script w2 = q # script w'" "requeue_result q r"
      using requeue_reply by blast
    with q1 have "rest = [q1] @ q # script w'" by simp
    with \<open>requeue_result q r\<close> show ?thesis by blast
  next
    case (Inr f)
    with assms(1) c ok o obtain vb w3 w4 z w5 where
      l: "load (buffers dev) k w2 = Returns vb w3"
      and wl: "write_loop f (addr vb) (size' vb) len 0 w3 = Returns () w4"
      and cl: "sys (SysClose f) w4 = Returns z w5"
      and rq: "requeue dev k NOERROR w5 = Returns r w'"
      by (auto simp: read_frame_def andThen_def split: outcome.splits)
    from write_loop_consumes [OF wl] obtain ws where ws: "script w3 = ws @ script w4" by blast
    from requeue_reply [OF rq] obtain q where q: "script w5 = q # script w'" "requeue_result q r"
      by auto
    from q1 load_world [OF l] ws sys_consumes [OF cl] q(1)
    have "rest = (q1 # ws @ [z]) @ q # script w'" by simp
    with q(2) show ?thesis by blast
  qed
qed

text \<open>
  Claim C8. Once \<open>VIDIOC_DQBUF\<close> has given buffer \<open>k\<close> of the pool, \<open>read_frame\<close> hands the
  buffer back with \<open>VIDIOC_QBUF\<close> before it returns, whatever became of the frame. When
  the frame file cannot be created, the buffer is enqueued again and the result is
  that failure (\<open>NOT_PERMITTED\<close> or \<open>IO_FILE_NOT_CREATED\<close>); when the mapped region was
  handed to \<open>write\<close> and the write fails, the buffer is enqueued again after the file is
  closed; in both cases a failing \<open>VIDIOC_QBUF\<close> makes the result
  \<open>MEMORY_QUEUEING_FAILED\<close>. And for every run of \<open>read_frame\<close> that returns after
  a successful dequeue of buffer \<open>k'\<close>: the calls it made start with the dequeue and end
  with the enqueueing of the same \<open>k'\<close>, with no other dequeue in between; and the
  result is \<open>MEMORY_QUEUEING_FAILED\<close> exactly when the reply \<open>q\<close> to that last call, the
  last reply the run took, is a failure.
\<close>

theorem dequeued_buffer_requeued:
  assumes k: "k < to_u32 (buffer_count dev)"
    and b: "load (buffers dev) k w = Returns b w"
    and len: "0 < len"
    and run: "read_frame args dev index v = Returns r v'"
    and deq: "script v = Dequeued k' len' # rest'"
  shows "read_frame args dev index (w\<lparr>script := Dequeued k len # Fail e # Ok # rest\<rparr>)
         = Returns (if e = EPERM then NOT_PERMITTED else IO_FILE_NOT_CREATED)
             (w\<lparr>script := rest,
                trace := trace w @ [VIDIOC_DQBUF (fd dev), SysCreate (cap_prefix args) index,
                                    VIDIOC_QBUF (fd dev) k]\<rparr>)
       \<and> read_frame args dev index (w\<lparr>script := Dequeued k len # Fail e # Fail qe # rest\<rparr>)
         = Returns MEMORY_QUEUEING_FAILED
             (w\<lparr>script := rest,
                trace := trace w @ [VIDIOC_DQBUF (fd dev), SysCreate (cap_prefix args) index,
                                    VIDIOC_QBUF (fd dev) k]\<rparr>)
       \<and> read_frame args dev index (w\<lparr>script := Dequeued k len # Fd n # Fail e # c # Ok # rest\<rparr>)
         = Returns NOERROR
             (w\<lparr>script := rest,
                trace := trace w @ [VIDIOC_DQBUF (fd dev), SysCreate (cap_prefix args) index,
                                    SysWrite (int n) (addr b) 0 (to_u32 (int (size' b))),
                                    SysClose (int n), VIDIOC_QBUF (fd dev) k]\<rparr>)
       \<and> read_frame args dev index
           (w\<lparr>script := Dequeued k len # Fd n # Fail e # c # Fail qe # rest\<rparr>)
         = Returns MEMORY_QUEUEING_FAILED
             (w\<lparr>script := rest,
                trace := trace w @ [VIDIOC_DQBUF (fd dev), SysCreate (cap_prefix args) index,
                                    SysWrite (int n) (addr b) 0 (to_u32 (int (size' b))),
                                    SysClose (int n), VIDIOC_QBUF (fd dev) k]\<rparr>)
       \<and> k' < to_u32 (buffer_count dev)
       \<and> (\<exists>calls. trace v' = trace v @ VIDIOC_DQBUF (fd dev) # calls @ [VIDIOC_QBUF (fd dev) k']
             \<and> VIDIOC_DQBUF (fd dev) \<notin> set calls \<and> VIDIOC_QBUF (fd dev) k' \<notin> set calls)
       \<and> (\<exists>used q. rest' = used @ q # script v' \<and> requeue_result q r)"
proof -
  have a1: "read_frame args dev index (w\<lparr>script := Dequeued k len # Fail e # Ok # rest\<rparr>)
         = Returns (if e = EPERM then NOT_PERMITTED else IO_FILE_NOT_CREATED)
             (w\<lparr>script := rest,
                trace := trace w @ [VIDIOC_DQBUF (fd dev), SysCreate (cap_prefix args) index,
                                    VIDIOC_QBUF (fd dev) k]\<rparr>)"
    using k
    by (simp add: read_frame_def requeue_def call_def sys_def andThen_def is_dequeued_def
        is_ok_def)
  have a2: "read_frame args dev index (w\<lparr>script := Dequeued k len # Fail e # Fail qe # rest\<rparr>)
         = Returns MEMORY_QUEUEING_FAILED
             (w\<lparr>script := rest,
                trace := trace w @ [VIDIOC_DQBUF (fd dev), SysCreate (cap_prefix args) index,
                                    VIDIOC_QBUF (fd dev) k]\<rparr>)"
    using k
    by (simp add: read_frame_def requeue_def call_def sys_def andThen_def is_dequeued_def)
  have ld: "\<And>s t. load (buffers dev) k (w\<lparr>script := s, trace := t\<rparr>)
                = Returns b (w\<lparr>script := s, trace := t\<rparr>)"
    by (rule load_same_heap [OF b]) simp
  have wl: "\<And>f p sz s t. write_loop f p sz len 0 (w\<lparr>script := Fail e # s, trace := t\<rparr>)
                = Returns () (w\<lparr>script := s, trace := t @ [SysWrite f p 0 (to_u32 (int sz))]\<rparr>)"
    using len by (subst write_loop.simps) (simp add: call_def sys_def andThen_def to_u32_def)
  have cases_c: "\<And>s t. sys (SysClose (int n)) (w\<lparr>script := c # s, trace := t\<rparr>)
                = Returns c (w\<lparr>script := s, trace := t @ [SysClose (int n)]\<rparr>)"
    by (simp add: sys_def)
  have b1: "read_frame args dev index (w\<lparr>script := Dequeued k len # Fd n # Fail e # c # Ok # rest\<rparr>)
         = Returns NOERROR
             (w\<lparr>script := rest,
                trace := trace w @ [VIDIOC_DQBUF (fd dev), SysCreate (cap_prefix args) index,
                                    SysWrite (int n) (addr b) 0 (to_u32 (int (size' b))),
                                    SysClose (int n), VIDIOC_QBUF (fd dev) k]\<rparr>)"
    using k
    by (simp add: read_frame_def requeue_def call_def sys_def [of "VIDIOC_DQBUF _"]
        sys_def [of "SysCreate _ _"] sys_def [of "VIDIOC_QBUF _ _"] andThen_def
        is_dequeued_def is_fd_def is_ok_def ld wl cases_c)
  have b2: "read_frame args dev index
           (w\<lparr>script := Dequeued k len # Fd n # Fail e # c # Fail qe # rest\<rparr>)
         = Returns MEMORY_QUEUEING_FAILED
             (w\<lparr>script := rest,
                trace := trace w @ [VIDIOC_DQBUF (fd dev), SysCreate (cap_prefix args) index,
                                    SysWrite (int n) (addr b) 0 (to_u32 (int (size' b))),
                                    SysClose (int n), VIDIOC_QBUF (fd dev) k]\<rparr>)"
    using k
    by (simp add: read_frame_def requeue_def call_def sys_def [of "VIDIOC_DQBUF _"]
        sys_def [of "SysCreate _ _"] sys_def [of "VIDIOC_QBUF _ _"] andThen_def
        is_dequeued_def is_fd_def is_ok_def ld wl cases_c)
  from a1 a2 b1 b2 read_frame_requeues [OF run deq] read_frame_consumes [OF run deq]
  show ?thesis by blast
qed


text \<open>On the example pool: the file cannot be created; the write fails and so does the
  enqueueing; the frame is written in two pieces.\<close>

theorem dequeued_buffer_requeued_witness:
  "read_frame default_args example_dev 0 (example_world [Dequeued 1 16, Fail EPERM, Ok])
   = Returns NOT_PERMITTED
       ((example_world [])\<lparr>trace := [VIDIOC_DQBUF 3, SysCreate ''video.cap'' 0,
                                        VIDIOC_QBUF 3 1]\<rparr>)
   \<and> read_frame default_args example_dev 0
       (example_world [Dequeued 1 16, Fd 5, Fail EPERM, Ok, Fail EIO])
   = Returns MEMORY_QUEUEING_FAILED
       ((example_world [])\<lparr>trace := [VIDIOC_DQBUF 3, SysCreate ''video.cap'' 0,
                                        SysWrite 5 (Addr 12288) 0 16, SysClose 5,
                                        VIDIOC_QBUF 3 1]\<rparr>)
   \<and> read_frame default_args example_dev 0
       (example_world [Dequeued 1 16, Fd 5, Written 10, Written 6, Ok, Ok])
   = Returns NOERROR
       ((example_world [])\<lparr>trace := [VIDIOC_DQBUF 3, SysCreate ''video.cap'' 0,
                                        SysWrite 5 (Addr 12288) 0 16,
                                        SysWrite 5 (Addr 12288) 10 6, SysClose 5,
                                        VIDIOC_QBUF 3 1]\<rparr>)"
proof -
  have run: "read_frame default_args example_dev 0
       (example_world [Dequeued 1 16, Fd 5, Written 10, Written 6, Ok, Ok])
   = Returns NOERROR
       ((example_world [])\<lparr>trace := [VIDIOC_DQBUF 3, SysCreate ''video.cap'' 0,
                                        SysWrite 5 (Addr 12288) 0 16,
                                        SysWrite 5 (Addr 12288) 10 6, SysClose 5,
                                        VIDIOC_QBUF 3 1]\<rparr>)"
    by (simp add: write_loop.simps read_frame_def requeue_def load_def
        call_def sys_def andThen_def is_dequeued_def is_fd_def is_written_def
        is_ok_def example_world_def example_dev_def initial_dev_def default_args_def
        DEF_CAPTURE_PREFIX_def to_u32_def)
  have k: "1 < to_u32 (buffer_count example_dev)"
    by (simp add: example_dev_def to_u32_def)
  have b: "load (buffers example_dev) 1 (example_world [])
           = Returns \<lparr>addr = Addr 12288, size' = 16\<rparr> (example_world [])"
    by (simp add: load_def example_dev_def example_world_def)
  have deq: "script (example_world [Dequeued 1 16, Fd 5, Written 10, Written 6, Ok, Ok])
             = Dequeued 1 16 # [Fd 5, Written 10, Written 6, Ok, Ok]"
    by (simp add: example_world_def)
  from dequeued_buffer_requeued
      [OF k b _ run deq, where len = 16 and e = EPERM and qe = EIO and n = 5 and c = Ok
         and rest = "[]"]
    run
  show ?thesis
    by (simp add: example_world_def example_dev_def initial_dev_def default_args_def
        DEF_CAPTURE_PREFIX_def to_u32_def)
qed

section \<open>Properties of the buffer pool\<close>

lemma enum_formats_ends:
  "enum_formats f i \<lparr>script = replicate k Ok @ Fail EINVAL # rest, trace = t, heap = h, mapped = m\<rparr>
   = Returns NOERROR
       \<lparr>script = rest, trace = t @ map (VIDIOC_ENUM_FMT f) [i..<i + Suc k], heap = h,
        mapped = m\<rparr>"
proof (induction k arbitrary: i t)
  case 0
  show ?case
    by (subst enum_formats.simps) (simp add: call_def sys_def andThen_def)
next
  case (Suc k)
  have "enum_formats f i
          \<lparr>script = replicate (Suc k) Ok @ Fail EINVAL # rest, trace = t, heap = h, mapped = m\<rparr>
        = enum_formats f (i + 1)
          \<lparr>script = replicate k Ok @ Fail EINVAL # rest, trace = t @ [VIDIOC_ENUM_FMT f i],
           heap = h, mapped = m\<rparr>"
    by (subst enum_formats.simps) (simp add: call_def sys_def andThen_def is_ok_def)
  also have "\<dots> = Returns NOERROR
       \<lparr>script = rest,
        trace = (t @ [VIDIOC_ENUM_FMT f i]) @ map (VIDIOC_ENUM_FMT f) [i + 1..<i + 1 + Suc k],
        heap = h, mapped = m\<rparr>"
    by (rule Suc.IH)
  finally show ?case by (simp add: upt_rec [of i])
qed

lemma init_buffer_too_few:
  "n < 2 \<Longrightarrow>
   init_buffer dev (w\<lparr>script := Granted n # rest\<rparr>)
   = Returns (INSUFFICIENT_MEMORY, dev\<lparr>buffers := NULL, buffer_count := 0\<rparr>)
       (w\<lparr>script := rest, trace := trace w @ [VIDIOC_REQBUFS (fd dev) 2]\<rparr>)"
  by (simp add: init_buffer_def init_buffer_pool_def call_def sys_def andThen_def
      is_granted_def Let_def)

text \<open>
  Claim C6. For every number \<open>n < 2\<close> of buffers that the kernel grants, \<open>init_buffer\<close>
  returns \<open>INSUFFICIENT_MEMORY\<close> right after \<open>VIDIOC_REQBUFS\<close>: it maps nothing and leaves
  the mappings of the world as they were. In a whole run of the program in which the
  device opens, \<open>k\<close> formats are enumerated, crop and format are accepted and \<open>n < 2\<close>
  buffers are granted, \<open>main\<close> returns \<open>INSUFFICIENT_MEMORY\<close>, no mapping is live at
  the end, and the calls made are exactly those listed: \<open>VIDIOC_STREAMON\<close> is not among
  them.
\<close>

theorem too_few_buffers:
  assumes n: "n < 2"
    and args: "parse_args atoi argv opts default_args = Parsed 0 args"
    and code: "to_v4l2_pixel_format (pixel_format args) = Some code"
    and cap: "c AND V4L2_CAP_VIDEO_CAPTURE \<noteq> 0"
  shows "init_buffer dev (w\<lparr>script := Granted n # rest\<rparr>)
         = Returns (INSUFFICIENT_MEMORY, dev\<lparr>buffers := NULL, buffer_count := 0\<rparr>)
             (w\<lparr>script := rest, trace := trace w @ [VIDIOC_REQBUFS (fd dev) 2]\<rparr>)
       \<and> main atoi argv opts
           (world_of (Fd f # Caps c # CropCaps rc # replicate k Ok
                      @ Fail EINVAL # Ok # Format fm # Format g # Granted n # Ok # rest))
         = Returns INSUFFICIENT_MEMORY
             \<lparr>script = rest,
              trace = [SysOpen (device args), VIDIOC_QUERYCAP (int f), VIDIOC_CROPCAP (int f)]
                      @ map (VIDIOC_ENUM_FMT (int f)) [0..<Suc k]
                      @ [VIDIOC_S_CROP (int f) rc,
                         VIDIOC_S_FMT (int f) (requested_format args code),
                         VIDIOC_G_FMT (int f), VIDIOC_REQBUFS (int f) 2, SysClose (int f)],
              heap = [], mapped = []\<rparr>
       \<and> VIDIOC_STREAMON (int f) \<notin>
           set ([SysOpen (device args), VIDIOC_QUERYCAP (int f), VIDIOC_CROPCAP (int f)]
                      @ map (VIDIOC_ENUM_FMT (int f)) [0..<Suc k]
                      @ [VIDIOC_S_CROP (int f) rc,
                         VIDIOC_S_FMT (int f) (requested_format args code),
                         VIDIOC_G_FMT (int f), VIDIOC_REQBUFS (int f) 2, SysClose (int f)])"
proof -
  note a = init_buffer_too_few [OF n, where dev = dev and w = w and rest = rest]
  have opened: "open_video_device args initial_dev
           (world_of (Fd f # Caps c # CropCaps rc # replicate k Ok
                      @ Fail EINVAL # Ok # Format fm # Format g # Granted n # Ok # rest))
        = Returns (NOERROR, initial_dev\<lparr>fd := int f, caps := c, cropcaps := rc\<rparr>)
            \<lparr>script = Ok # Format fm # Format g # Granted n # Ok # rest,
             trace = [SysOpen (device args), VIDIOC_QUERYCAP (int f), VIDIOC_CROPCAP (int f)]
                      @ map (VIDIOC_ENUM_FMT (int f)) [0..<Suc k],
             heap = [], mapped = []\<rparr>"
    using cap
    by (simp add: open_video_device_def world_of_def call_def sys_def andThen_def is_fd_def
        is_caps_def is_cropcaps_def enum_formats_ends [where i = 0, simplified])
  have init: "init_video_device args (initial_dev\<lparr>fd := int f, caps := c, cropcaps := rc\<rparr>)
            \<lparr>script = Ok # Format fm # Format g # Granted n # Ok # rest,
             trace = t, heap = [], mapped = []\<rparr>
        = Returns (INSUFFICIENT_MEMORY,
             initial_dev\<lparr>fd := int f, caps := c, cropcaps := rc, crop := rc, format := fm,
                          buffers := NULL, buffer_count := 0\<rparr>)
            \<lparr>script = Ok # rest,
             trace = t @ [VIDIOC_S_CROP (int f) rc,
                         VIDIOC_S_FMT (int f) (requested_format args code),
                         VIDIOC_G_FMT (int f), VIDIOC_REQBUFS (int f) 2],
             heap = [], mapped = []\<rparr>" for t
    using n code
    by (simp add: init_video_device_def set_format_def read_back_format_def init_buffer_def
        init_buffer_pool_def call_def sys_def andThen_def is_ok_def is_format_def
        is_granted_def Let_def requested_format_def)
  have b: "main atoi argv opts
           (world_of (Fd f # Caps c # CropCaps rc # replicate k Ok
                      @ Fail EINVAL # Ok # Format fm # Format g # Granted n # Ok # rest))
         = Returns INSUFFICIENT_MEMORY
             \<lparr>script = rest,
              trace = [SysOpen (device args), VIDIOC_QUERYCAP (int f), VIDIOC_CROPCAP (int f)]
                      @ map (VIDIOC_ENUM_FMT (int f)) [0..<Suc k]
                      @ [VIDIOC_S_CROP (int f) rc,
                         VIDIOC_S_FMT (int f) (requested_format args code),
                         VIDIOC_G_FMT (int f), VIDIOC_REQBUFS (int f) 2, SysClose (int f)],
              heap = [], mapped = []\<rparr>"
    unfolding main_def args
    by (simp add: opened init andThen_def close_video_device_def close_retry.simps call_def
        sys_def is_ok_def del: upt_Suc)
  have c: "VIDIOC_STREAMON (int f) \<notin>
           set ([SysOpen (device args), VIDIOC_QUERYCAP (int f), VIDIOC_CROPCAP (int f)]
                      @ map (VIDIOC_ENUM_FMT (int f)) [0..<Suc k]
                      @ [VIDIOC_S_CROP (int f) rc,
                         VIDIOC_S_FMT (int f) (requested_format args code),
                         VIDIOC_G_FMT (int f), VIDIOC_REQBUFS (int f) 2, SysClose (int f)])"
    by auto
  from a b c show ?thesis by blast
qed


text \<open>The kernel grants no buffer; the kernel grants one buffer in a whole run.\<close>

theorem too_few_buffers_witness:
  "init_buffer example_dev (world_of [Granted 0])
   = Returns (INSUFFICIENT_MEMORY, example_dev\<lparr>buffers := NULL, buffer_count := 0\<rparr>)
       \<lparr>script = [], trace = [VIDIOC_REQBUFS 3 2], heap = [], mapped = []\<rparr>
   \<and> main (\<lambda>s. 0) [''uvccap''] []
       (world_of [Fd 3, Caps 1, CropCaps zero_rect, Ok, Ok, Fail EINVAL, Ok,
                  Format example_format, Format example_format, Granted 1, Ok])
   = Returns INSUFFICIENT_MEMORY
       \<lparr>script = [],
        trace = [SysOpen ''/dev/video0'', VIDIOC_QUERYCAP 3, VIDIOC_CROPCAP 3,
                 VIDIOC_ENUM_FMT 3 0, VIDIOC_ENUM_FMT 3 1, VIDIOC_ENUM_FMT 3 2,
                 VIDIOC_S_CROP 3 zero_rect,
                 VIDIOC_S_FMT 3 (requested_format default_args V4L2_PIX_FMT_YUYV),
                 VIDIOC_G_FMT 3, VIDIOC_REQBUFS 3 2, SysClose 3],
        heap = [], mapped = []\<rparr>"
proof -
  have n0: "(0::nat) < 2" and n1: "(1::nat) < 2" by simp_all
  have args: "parse_args (\<lambda>s. 0) [''uvccap''] [] default_args = Parsed 0 default_args"
    by (simp add: parse_args_def)
  have code: "to_v4l2_pixel_format (pixel_format default_args) = Some V4L2_PIX_FMT_YUYV"
    by (simp add: to_v4l2_pixel_format_def array_at_def PIXEL_FORMATS_def default_args_def
        DEF_PIXEL_FORMAT_def NUMBER_OF_SUPPORTED_PIXEL_FORMATS_def)
  have cap: "(1::u32) AND V4L2_CAP_VIDEO_CAPTURE \<noteq> 0"
    by (simp add: V4L2_CAP_VIDEO_CAPTURE_def)
  from too_few_buffers [OF n0 args code cap, where dev = example_dev and w = "world_of []"
      and rest = "[]" and f = 3 and rc = zero_rect and k = 2 and fm = example_format
      and g = example_format]
    too_few_buffers [OF n1 args code cap, where dev = example_dev and w = "world_of []"
      and rest = "[]" and f = 3 and rc = zero_rect and k = 2 and fm = example_format
      and g = example_format]
  show ?thesis
    by (simp add: world_of_def example_dev_def initial_dev_def default_args_def
        DEF_VIDEO_DEVICE_def numeral_eq_Suc upt_rec)
qed

section \<open>Properties of the capability query\<close>

text \<open>
  Claim C3, as the specification states it, does not hold: a device that answers the
  cropping-capabilities query with \<open>EINVAL\<close> is not taken as a device without cropping.
  \<open>open_video_device\<close> returns \<open>VIDEO_DEVICE_NOCROPCAPS\<close> and the enumeration of the
  formats is not started (the reply meant for it is still in the script).
\<close>

theorem cropcap_einval_counterexample:
  "open_video_device default_args initial_dev
     (world_of [Fd 3, Caps 1, Fail EINVAL, Fail EINVAL])
   = Returns (VIDEO_DEVICE_NOCROPCAPS, initial_dev\<lparr>fd := 3, caps := 1\<rparr>)
       \<lparr>script = [Fail EINVAL],
        trace = [SysOpen ''/dev/video0'', VIDIOC_QUERYCAP 3, VIDIOC_CROPCAP 3],
        heap = [], mapped = []\<rparr>"
  by (simp add: open_video_device_def world_of_def call_def sys_def andThen_def is_fd_def
      is_caps_def V4L2_CAP_VIDEO_CAPTURE_def initial_dev_def default_args_def
      DEF_VIDEO_DEVICE_def)

text \<open>
  Claim C3, amended. On a device that can capture, every failure of the
  cropping-capabilities query, \<open>EINVAL\<close> as any other error \<open>e\<close>, makes
  \<open>open_video_device\<close> return \<open>VIDEO_DEVICE_NOCROPCAPS\<close> at once, the descriptor left
  open in the structure.
\<close>

theorem cropcap_failure_fatal:
  assumes "c AND V4L2_CAP_VIDEO_CAPTURE \<noteq> 0"
  shows "open_video_device args dev (w\<lparr>script := Fd f # Caps c # Fail e # rest\<rparr>)
         = Returns (VIDEO_DEVICE_NOCROPCAPS,
                    dev\<lparr>fd := int f, caps := c, cropcaps := zero_rect\<rparr>)
             (w\<lparr>script := rest,
                trace := trace w @ [SysOpen (device args), VIDIOC_QUERYCAP (int f),
                                    VIDIOC_CROPCAP (int f)]\<rparr>)"
  using assms
  by (simp add: open_video_device_def call_def sys_def andThen_def is_fd_def is_caps_def)

theorem cropcap_failure_fatal_witness:
  "open_video_device default_args initial_dev (world_of [Fd 3, Caps 1, Fail EINVAL])
   = Returns (VIDEO_DEVICE_NOCROPCAPS, initial_dev\<lparr>fd := 3, caps := 1\<rparr>)
       \<lparr>script = [],
        trace = [SysOpen ''/dev/video0'', VIDIOC_QUERYCAP 3, VIDIOC_CROPCAP 3],
        heap = [], mapped = []\<rparr>
   \<and> open_video_device default_args initial_dev (world_of [Fd 3, Caps 1, Fail EIO])
   = Returns (VIDEO_DEVICE_NOCROPCAPS, initial_dev\<lparr>fd := 3, caps := 1\<rparr>)
       \<lparr>script = [],
        trace = [SysOpen ''/dev/video0'', VIDIOC_QUERYCAP 3, VIDIOC_CROPCAP 3],
        heap = [], mapped = []\<rparr>"
proof -
  have cap: "(1::u32) AND V4L2_CAP_VIDEO_CAPTURE \<noteq> 0"
    by (simp add: V4L2_CAP_VIDEO_CAPTURE_def)
  from cropcap_failure_fatal [OF cap, where args = default_args and dev = initial_dev
      and w = "world_of []" and f = 3 and e = EINVAL and rest = "[]"]
    cropcap_failure_fatal [OF cap, where args = default_args and dev = initial_dev
      and w = "world_of []" and f = 3 and e = EIO and rest = "[]"]
  show ?thesis
    by (simp add: world_of_def initial_dev_def default_args_def DEF_VIDEO_DEVICE_def)
qed

section \<open>Properties of the format negotiation\<close>

lemma init_buffer_pool_format:
  "init_buffer_pool dev n w = Returns (r, dev') w' \<Longrightarrow> format dev' = format dev"
  by (auto simp: init_buffer_pool_def andThen_def
      split: if_splits outcome.splits prod.splits)

lemma init_buffer_format:
  "init_buffer dev w = Returns (r, dev') w' \<Longrightarrow> format dev' = format dev"
  by (auto simp: init_buffer_def andThen_def Let_def
      split: if_splits outcome.splits sum.splits dest!: init_buffer_pool_format)

lemma replicate_two: "replicate 2 x = [x, x]"
  by (simp add: numeral_2_eq_2)

lemmas run_defs = replicate_two
  init_video_device_def set_format_def read_back_format_def init_buffer_def
  init_buffer_pool_def map_buffers.simps malloc_def store_def mmap_def call_def sys_def
  andThen_def is_ok_def is_format_def is_granted_def is_buffer_def Let_def world_of_def
  initial_dev_def default_args_def to_v4l2_pixel_format_def array_at_def PIXEL_FORMATS_def
  NUMBER_OF_SUPPORTED_PIXEL_FORMATS_def DEF_PIXEL_FORMAT_def DEF_CAPTURE_WIDTH_def
  DEF_CAPTURE_HEIGHT_def requested_format_def to_u32_def to_int_def zero_rect_def

lemma run_format_reported_otherwise:
  "init_video_device default_args (initial_dev\<lparr>fd := 3\<rparr>)
     (world_of (Ok # Format example_format # Format reported_format # pool_replies))
   = Returns (NOERROR,
        initial_dev\<lparr>fd := 3, format := example_format,
                     buffers := Addr 4096, buffer_count := 2\<rparr>)
       (pool_world [VIDIOC_S_CROP 3 zero_rect,
                    VIDIOC_S_FMT 3 (requested_format default_args V4L2_PIX_FMT_YUYV),
                    VIDIOC_G_FMT 3])"
  by (simp add: run_defs pool_replies_def pool_world_def)

text \<open>
  Claim C4, as the specification states it, does not hold. The device accepts the
  format and writes 640 by 480 into the structure it was passed, then reports 320 by
  240 to \<open>VIDIOC_G_FMT\<close>, and grants and maps two buffers. \<open>init_video_device\<close>
  succeeds, and the format it leaves in the session is the one \<open>VIDIOC_S_FMT\<close> wrote,
  not the one the later query reported: the report is not what the session holds.
\<close>

theorem format_not_read_back_counterexample:
  "init_video_device default_args (initial_dev\<lparr>fd := 3\<rparr>)
     (world_of (Ok # Format example_format # Format reported_format # pool_replies))
   = Returns (NOERROR,
        initial_dev\<lparr>fd := 3, format := example_format,
                     buffers := Addr 4096, buffer_count := 2\<rparr>)
       (pool_world [VIDIOC_S_CROP 3 zero_rect,
                    VIDIOC_S_FMT 3 (requested_format default_args V4L2_PIX_FMT_YUYV),
                    VIDIOC_G_FMT 3])
   \<and> example_format \<noteq> reported_format
   \<and> width example_format = 640 \<and> width reported_format = 320"
  using run_format_reported_otherwise
  by (simp add: example_format_def reported_format_def)

text \<open>
  Claim C4, amended. When the device accepts the request, the format kept in the
  session is what \<open>VIDIOC_S_FMT\<close> wrote into the structure it was passed.
  \<open>VIDIOC_G_FMT\<close> is called afterwards, but whatever it replies \<open>g\<close>, a format or a
  failure, goes to a local variable that is printed and dropped: \<open>init_video_device\<close>
  goes on to \<open>init_buffer\<close> with the same session either way, and \<open>init_buffer\<close> does not
  touch the format.
\<close>

theorem format_kept_from_set_format:
  assumes code: "to_v4l2_pixel_format (pixel_format args) = Some code"
    and crop: "s_crop_reply c"
    and g: "g_fmt_reply g"
    and set: "init_video_device args dev (w\<lparr>script := c # Format written # g # rest\<rparr>)
              = Returns (r, dev') w'"
  shows "init_video_device args dev (w\<lparr>script := c # Format written # g # rest\<rparr>)
         = init_buffer (dev\<lparr>crop := cropcaps dev, format := written\<rparr>)
             (w\<lparr>script := rest,
                trace := trace w @ [VIDIOC_S_CROP (fd dev) (cropcaps dev),
                                    VIDIOC_S_FMT (fd dev) (requested_format args code),
                                    VIDIOC_G_FMT (fd dev)]\<rparr>)
       \<and> format dev' = written"
proof -
  have crop_call: "call (VIDIOC_S_CROP f rc) is_ok (w\<lparr>script := c # s\<rparr>)
        = Returns (if c = Ok then Inr () else Inl EINVAL)
            (w\<lparr>script := s, trace := trace w @ [VIDIOC_S_CROP f rc]\<rparr>)" for f rc s
    using crop by (auto simp: s_crop_reply_def call_def sys_def andThen_def is_ok_def)
  have g_call: "\<exists>x. call (VIDIOC_G_FMT f) is_format (w\<lparr>script := g # s, trace := t\<rparr>)
        = Returns x (w\<lparr>script := s, trace := t @ [VIDIOC_G_FMT f]\<rparr>)" for f s t
    using g
    by (auto simp: g_fmt_reply_def call_def sys_def andThen_def is_format_def
        split: reply.splits)
  have rb: "read_back_format d (w\<lparr>script := g # s, trace := t\<rparr>)
        = init_buffer d (w\<lparr>script := s, trace := t @ [VIDIOC_G_FMT (fd d)]\<rparr>)" for d s t
    using g_call [where f = "fd d" and s = s and t = t]
    by (auto simp: read_back_format_def andThen_def)
  have a: "init_video_device args dev (w\<lparr>script := c # Format written # g # rest\<rparr>)
         = init_buffer (dev\<lparr>crop := cropcaps dev, format := written\<rparr>)
             (w\<lparr>script := rest,
                trace := trace w @ [VIDIOC_S_CROP (fd dev) (cropcaps dev),
                                    VIDIOC_S_FMT (fd dev) (requested_format args code),
                                    VIDIOC_G_FMT (fd dev)]\<rparr>)"
    using code
    by (simp add: init_video_device_def set_format_def Let_def crop_call andThen_def
        call_def [of "VIDIOC_S_FMT _ _"] sys_def is_format_def rb requested_format_def)
  from set a have "format dev' = written"
    by (auto dest: init_buffer_format)
  with a show ?thesis by blast
qed

text \<open>The device writes back 640 by 480; the later query fails in one run and reports
  320 by 240 in the other: the session is the same.\<close>

theorem format_kept_from_set_format_witness:
  "init_video_device default_args (initial_dev\<lparr>fd := 3\<rparr>)
     (world_of (Ok # Format example_format # Fail EIO # pool_replies))
   = init_buffer (initial_dev\<lparr>fd := 3, format := example_format\<rparr>)
       ((world_of pool_replies)
          \<lparr>trace := [VIDIOC_S_CROP 3 zero_rect,
                      VIDIOC_S_FMT 3 (requested_format default_args V4L2_PIX_FMT_YUYV),
                      VIDIOC_G_FMT 3]\<rparr>)
   \<and> init_video_device default_args (initial_dev\<lparr>fd := 3\<rparr>)
     (world_of (Ok # Format example_format # Format reported_format # pool_replies))
   = init_buffer (initial_dev\<lparr>fd := 3, format := example_format\<rparr>)
       ((world_of pool_replies)
          \<lparr>trace := [VIDIOC_S_CROP 3 zero_rect,
                      VIDIOC_S_FMT 3 (requested_format default_args V4L2_PIX_FMT_YUYV),
                      VIDIOC_G_FMT 3]\<rparr>)"
proof -
  have code: "to_v4l2_pixel_format (pixel_format default_args) = Some V4L2_PIX_FMT_YUYV"
    by (simp add: to_v4l2_pixel_format_def array_at_def PIXEL_FORMATS_def default_args_def
        DEF_PIXEL_FORMAT_def NUMBER_OF_SUPPORTED_PIXEL_FORMATS_def)
  have crop: "s_crop_reply Ok" by (simp add: s_crop_reply_def)
  have failed: "g_fmt_reply (Fail EIO)" by (simp add: g_fmt_reply_def)
  have reported: "g_fmt_reply (Format reported_format)" by (simp add: g_fmt_reply_def)
  have set_failed: "init_video_device default_args (initial_dev\<lparr>fd := 3\<rparr>)
       ((world_of [])\<lparr>script := Ok # Format example_format # Fail EIO # pool_replies\<rparr>)
     = Returns (NOERROR,
        initial_dev\<lparr>fd := 3, format := example_format,
                     buffers := Addr 4096, buffer_count := 2\<rparr>)
       (pool_world [VIDIOC_S_CROP 3 zero_rect,
                    VIDIOC_S_FMT 3 (requested_format default_args V4L2_PIX_FMT_YUYV),
                    VIDIOC_G_FMT 3])"
    by (simp add: run_defs pool_replies_def pool_world_def)
  have set_reported: "init_video_device default_args (initial_dev\<lparr>fd := 3\<rparr>)
       ((world_of [])\<lparr>script := Ok # Format example_format # Format reported_format
                                  # pool_replies\<rparr>)
     = Returns (NOERROR,
        initial_dev\<lparr>fd := 3, format := example_format,
                     buffers := Addr 4096, buffer_count := 2\<rparr>)
       (pool_world [VIDIOC_S_CROP 3 zero_rect,
                    VIDIOC_S_FMT 3 (requested_format default_args V4L2_PIX_FMT_YUYV),
                    VIDIOC_G_FMT 3])"
    by (simp add: run_defs pool_replies_def pool_world_def)
  from format_kept_from_set_format [OF code crop failed set_failed]
    format_kept_from_set_format [OF code crop reported set_reported]
  show ?thesis
    by (simp add: world_of_def initial_dev_def zero_rect_def)
qed

section \<open>Properties of the early end of the buffer enumeration\<close>









section \<open>Properties of closing\<close>

lemmas close_defs =
  close_video_device_def close_retry.simps unmap_buffers.simps load_def munmap_def free_def
  call_def sys_def andThen_def is_ok_def world_of_def example_world_def example_dev_def
  opened_dev_def initial_dev_def to_u32_def

text \<open>
  Claim C1, as the specification states it, does not hold. \<open>close_video_device\<close> takes
  the session as a constant and leaves its descriptor as it was, so a second close of
  a session that was open finds nothing that tells it the session is closed. On a
  session without buffers it calls \<open>close\<close> on the descriptor a second time. On a session
  with a pool of two buffers the first close unmaps both, frees the array and closes
  the descriptor; the second reads the freed array.
\<close>

theorem second_close_counterexample:
  "close_video_device (Some opened_dev) (world_of [Ok, Ok])
   = Returns () \<lparr>script = [Ok], trace = [SysClose 3], heap = [], mapped = []\<rparr>
   \<and> close_video_device (Some opened_dev)
       \<lparr>script = [Ok], trace = [SysClose 3], heap = [], mapped = []\<rparr>
   = Returns () \<lparr>script = [], trace = [SysClose 3, SysClose 3], heap = [], mapped = []\<rparr>
   \<and> close_video_device (Some example_dev) (example_world [Ok, Ok])
   = Returns ()
       \<lparr>script = [Ok],
        trace = [SysMunmap (Addr 8192) 16, SysMunmap (Addr 12288) 16, SysFree (Addr 4096),
                 SysClose 3],
        heap = [], mapped = []\<rparr>
   \<and> close_video_device (Some example_dev)
       \<lparr>script = [Ok],
        trace = [SysMunmap (Addr 8192) 16, SysMunmap (Addr 12288) 16, SysFree (Addr 4096),
                 SysClose 3],
        heap = [], mapped = []\<rparr>
   = Undefined"
  by (simp add: close_defs)

text \<open>
  Claim C1, amended. Closing a session that is in the closed state, its descriptor
  negative as before the device is opened and after a failed open, is a no-op: no
  error, no unmap, no release of a descriptor, the world is left as it was; so is
  closing the null session. Closing an open session that has no buffers makes one
  call of \<open>close\<close>, when that call succeeds.
\<close>

theorem close_of_closed_session:
  assumes "fd closed < 0" and "0 \<le> fd opened" and "buffers opened = NULL"
  shows "close_video_device (Some closed) w = Returns () w
       \<and> close_video_device None w = Returns () w
       \<and> close_video_device (Some opened) (w\<lparr>script := Ok # rest\<rparr>)
         = Returns () (w\<lparr>script := rest, trace := trace w @ [SysClose (fd opened)]\<rparr>)"
  using assms
  by (simp add: close_video_device_def close_retry.simps [of _ "_\<lparr>script := Ok # _\<rparr>"]
      call_def sys_def andThen_def is_ok_def)

theorem close_of_closed_session_witness:
  "close_video_device (Some initial_dev) (example_world [Ok]) = Returns () (example_world [Ok])
   \<and> close_video_device None (example_world [Ok]) = Returns () (example_world [Ok])
   \<and> close_video_device (Some opened_dev) (world_of [Ok, Ok])
     = Returns () \<lparr>script = [Ok], trace = [SysClose 3], heap = [], mapped = []\<rparr>"
  using close_of_closed_session
    [where closed = initial_dev and opened = opened_dev and w = "example_world [Ok]"
       and rest = "[]"]
    close_of_closed_session
    [where closed = initial_dev and opened = opened_dev and w = "world_of []"
       and rest = "[Ok]"]
  by (simp add: initial_dev_def opened_dev_def world_of_def)

end
